theory Spec2Isabelle
  imports Complex_Main "HOL-Library.Monad_Syntax"
begin

section \<open>Numbers and vectors\<close>

text \<open>
  The program computes with C++ \<^verbatim>\<open>float\<close> and \<^verbatim>\<open>glm::vec3\<close>. A \<^verbatim>\<open>float\<close> is
  modelled by a \<^typ>\<open>real\<close>: rounding, infinities and NaN are outside the model, so
  every result below is a statement about the algorithm in exact arithmetic.
  A \<^verbatim>\<open>glm::vec3\<close> is a triple of such numbers with componentwise operations.
\<close>

datatype vec3 = Vec3 (vx: real) (vy: real) (vz: real)

instantiation vec3 :: ab_group_add
begin

definition zero_vec3 :: vec3 where
  "zero_vec3 = Vec3 0 0 0"

definition plus_vec3 :: "vec3 \<Rightarrow> vec3 \<Rightarrow> vec3" where
  "plus_vec3 a b = Vec3 (vx a + vx b) (vy a + vy b) (vz a + vz b)"

definition minus_vec3 :: "vec3 \<Rightarrow> vec3 \<Rightarrow> vec3" where
  "minus_vec3 a b = Vec3 (vx a - vx b) (vy a - vy b) (vz a - vz b)"

definition uminus_vec3 :: "vec3 \<Rightarrow> vec3" where
  "uminus_vec3 a = Vec3 (- vx a) (- vy a) (- vz a)"

instance
  by standard (simp_all add: zero_vec3_def plus_vec3_def minus_vec3_def uminus_vec3_def)

end

text \<open>\<^verbatim>\<open>v * s\<close> and \<^verbatim>\<open>v / s\<close> of a vector and a scalar, and \<^verbatim>\<open>a * b\<close> of two vectors.\<close>

definition vec_times :: "vec3 \<Rightarrow> real \<Rightarrow> vec3" where
  "vec_times v s = Vec3 (vx v * s) (vy v * s) (vz v * s)"

definition vec_divide :: "vec3 \<Rightarrow> real \<Rightarrow> vec3" where
  "vec_divide v s = Vec3 (vx v / s) (vy v / s) (vz v / s)"

definition vec_mult :: "vec3 \<Rightarrow> vec3 \<Rightarrow> vec3" where
  "vec_mult a b = Vec3 (vx a * vx b) (vy a * vy b) (vz a * vz b)"

text \<open>\<^verbatim>\<open>glm::clamp(x, minVal, maxVal)\<close> is \<^verbatim>\<open>min(max(x, minVal), maxVal)\<close>, componentwise
  on vectors.\<close>

definition clamp_scalar :: "real \<Rightarrow> real \<Rightarrow> real \<Rightarrow> real" where
  "clamp_scalar x minVal maxVal = min (max x minVal) maxVal"

definition glm_clamp :: "vec3 \<Rightarrow> vec3 \<Rightarrow> vec3 \<Rightarrow> vec3" where
  "glm_clamp v minVal maxVal =
     Vec3 (clamp_scalar (vx v) (vx minVal) (vx maxVal))
          (clamp_scalar (vy v) (vy minVal) (vy maxVal))
          (clamp_scalar (vz v) (vz minVal) (vz maxVal))"

text \<open>\<^verbatim>\<open>#define M_PI std::numbers::pi_v<float>\<close> (main.cpp, line 20).\<close>

definition M_PI :: real where
  "M_PI = pi"

section \<open>Scene objects\<close>

text \<open>
  Modelled from the spec: the class \<^verbatim>\<open>Object3D\<close> (\<^verbatim>\<open>Object3D.h\<close> is not among the sources).
  An object carries a position, an orientation (Euler angles) and a scale, and owns its
  children; its meshes are opaque to everything below and are left out.
\<close>

datatype Object3D =
  Object3D (m_position: vec3) (m_orientation: vec3) (m_scale: vec3) (m_children: "Object3D list")

text \<open>Modelled from the spec: \<^verbatim>\<open>Object3D::move\<close> (missing with \<^verbatim>\<open>Object3D.h\<close>) adds the
  offset to the position.\<close>

definition move :: "Object3D \<Rightarrow> vec3 \<Rightarrow> Object3D" where
  "move obj offset = Object3D (m_position obj + offset) (m_orientation obj) (m_scale obj) (m_children obj)"

text \<open>Modelled from the spec: \<^verbatim>\<open>Object3D::grow\<close> (missing with \<^verbatim>\<open>Object3D.h\<close>) multiplies
  the scale componentwise.\<close>

definition grow :: "Object3D \<Rightarrow> vec3 \<Rightarrow> Object3D" where
  "grow obj growBy = Object3D (m_position obj) (m_orientation obj) (vec_mult (m_scale obj) growBy) (m_children obj)"

text \<open>Modelled from the spec: \<^verbatim>\<open>Object3D::rotate\<close> (missing with \<^verbatim>\<open>Object3D.h\<close>) adds to
  the orientation.\<close>

definition rotate_obj :: "Object3D \<Rightarrow> vec3 \<Rightarrow> Object3D" where
  "rotate_obj obj rotation = Object3D (m_position obj) (m_orientation obj + rotation) (m_scale obj) (m_children obj)"

text \<open>Modelled from the spec: \<^verbatim>\<open>Object3D::setPosition\<close> and \<^verbatim>\<open>Object3D::setOrientation\<close>
  (missing with \<^verbatim>\<open>Object3D.h\<close>) assign.\<close>

definition setPosition :: "Object3D \<Rightarrow> vec3 \<Rightarrow> Object3D" where
  "setPosition obj position = Object3D position (m_orientation obj) (m_scale obj) (m_children obj)"

definition setOrientation :: "Object3D \<Rightarrow> vec3 \<Rightarrow> Object3D" where
  "setOrientation obj orientation = Object3D (m_position obj) orientation (m_scale obj) (m_children obj)"

text \<open>Modelled from the spec: \<^verbatim>\<open>Object3D::getPosition\<close> (missing with \<^verbatim>\<open>Object3D.h\<close>) is a
  pure accessor.\<close>

definition getPosition :: "Object3D \<Rightarrow> vec3" where
  "getPosition obj = m_position obj"

text \<open>Modelled from the spec: \<^verbatim>\<open>Object3D::addChild\<close> (missing with \<^verbatim>\<open>Object3D.h\<close>) appends
  the child that is moved in.\<close>

definition addChild :: "Object3D \<Rightarrow> Object3D \<Rightarrow> Object3D" where
  "addChild obj child = Object3D (m_position obj) (m_orientation obj) (m_scale obj) (m_children obj @ [child])"

text \<open>Modelled from the spec: \<^verbatim>\<open>Object3D::getChild\<close> (missing with \<^verbatim>\<open>Object3D.h\<close>). An index
  out of range is a programming error with no result: \<open>None\<close>.\<close>

definition getChild :: "Object3D \<Rightarrow> nat \<Rightarrow> Object3D option" where
  "getChild obj i = (if i < length (m_children obj) then Some (m_children obj ! i) else None)"

subsection \<open>Transforms and rendering\<close>

text \<open>
  The matrices of glm. Every matrix that arises from translations, rotations and
  scalings is affine (its last row is \<open>0 0 0 1\<close>), so a \<^verbatim>\<open>glm::mat4\<close> is modelled by its
  upper-left 3x3 block (three rows) and its translation column.
\<close>

datatype mat3 = Mat3 (row1: vec3) (row2: vec3) (row3: vec3)

datatype mat4 = Mat4 (linear: mat3) (translation: vec3)

definition dot :: "vec3 \<Rightarrow> vec3 \<Rightarrow> real" where
  "dot a b = vx a * vx b + vy a * vy b + vz a * vz b"

definition mat3_vec :: "mat3 \<Rightarrow> vec3 \<Rightarrow> vec3" where
  "mat3_vec m v = Vec3 (dot (row1 m) v) (dot (row2 m) v) (dot (row3 m) v)"

definition row_mat3 :: "vec3 \<Rightarrow> mat3 \<Rightarrow> vec3" where
  "row_mat3 r m = vec_times (row1 m) (vx r) + vec_times (row2 m) (vy r) + vec_times (row3 m) (vz r)"

definition mat3_mult :: "mat3 \<Rightarrow> mat3 \<Rightarrow> mat3" where
  "mat3_mult a b = Mat3 (row_mat3 (row1 a) b) (row_mat3 (row2 a) b) (row_mat3 (row3 a) b)"

definition mat3_identity :: mat3 where
  "mat3_identity = Mat3 (Vec3 1 0 0) (Vec3 0 1 0) (Vec3 0 0 1)"

definition mat4_mult :: "mat4 \<Rightarrow> mat4 \<Rightarrow> mat4" where
  "mat4_mult a b =
     Mat4 (mat3_mult (linear a) (linear b)) (mat3_vec (linear a) (translation b) + translation a)"

definition mat4_identity :: mat4 where
  "mat4_identity = Mat4 mat3_identity 0"

definition translate_mat :: "vec3 \<Rightarrow> mat4" where
  "translate_mat t = Mat4 mat3_identity t"

definition rotate_x :: "real \<Rightarrow> mat3" where
  "rotate_x t = Mat3 (Vec3 1 0 0) (Vec3 0 (cos t) (- sin t)) (Vec3 0 (sin t) (cos t))"

definition rotate_y :: "real \<Rightarrow> mat3" where
  "rotate_y t = Mat3 (Vec3 (cos t) 0 (sin t)) (Vec3 0 1 0) (Vec3 (- sin t) 0 (cos t))"

definition rotate_z :: "real \<Rightarrow> mat3" where
  "rotate_z t = Mat3 (Vec3 (cos t) (- sin t) 0) (Vec3 (sin t) (cos t) 0) (Vec3 0 0 1)"

definition rotate_mat :: "vec3 \<Rightarrow> mat4" where
  "rotate_mat r =
     Mat4 (mat3_mult (mat3_mult (rotate_x (vx r)) (rotate_y (vy r))) (rotate_z (vz r))) 0"

definition scale_mat :: "vec3 \<Rightarrow> mat4" where
  "scale_mat s = Mat4 (Mat3 (Vec3 (vx s) 0 0) (Vec3 0 (vy s) 0) (Vec3 0 0 (vz s))) 0"

text \<open>
  Modelled from the spec: \<^verbatim>\<open>Object3D::getTransform\<close> (missing with \<^verbatim>\<open>Object3D.h\<close>). The local
  transform of an object is \<open>translate * rotate * scale\<close>; the rotation composes the three
  axis rotations in the order X, Y, Z.
\<close>

definition getTransform :: "Object3D \<Rightarrow> mat4" where
  "getTransform obj =
     mat4_mult (mat4_mult (translate_mat (m_position obj)) (rotate_mat (m_orientation obj)))
       (scale_mat (m_scale obj))"

text \<open>
  Modelled from the spec: \<^verbatim>\<open>Object3D::render\<close> (missing with \<^verbatim>\<open>Object3D.h\<close>) draws the
  surfaces of an object with the accumulated world transform (the ancestors' transform
  times the object's own) and then renders each child under that transform. The result
  lists the world transforms drawn with, the object's first and its descendants' after
  it, in the order of the traversal.
\<close>

fun renderWith :: "mat4 \<Rightarrow> Object3D \<Rightarrow> mat4 list" where
  "renderWith parent (Object3D p r s cs) =
     (let world = mat4_mult parent (getTransform (Object3D p r s cs))
      in world # concat (map (renderWith world) cs))"

text \<open>Modelled from the spec: \<^verbatim>\<open>render\<close> as the frame loop calls it (missing with
  \<^verbatim>\<open>Object3D.h\<close>), with the identity for the transform of the ancestors.\<close>

definition render :: "Object3D \<Rightarrow> mat4 list" where
  "render obj = renderWith mat4_identity obj"

text \<open>The objects themselves in the order in which \<^verbatim>\<open>render\<close> visits them.\<close>

fun descendants :: "Object3D \<Rightarrow> Object3D list" where
  "descendants (Object3D p r s cs) = Object3D p r s cs # concat (map descendants cs)"

text \<open>The position at which a world transform places the origin of the object drawn.\<close>

definition worldPosition :: "mat4 \<Rightarrow> vec3" where
  "worldPosition m = translation m"

section \<open>Animations\<close>

text \<open>
  Modelled from the spec: the class \<^verbatim>\<open>Animation\<close> (\<^verbatim>\<open>Animation.h\<close> is not among the
  sources). An animation refers to its target object without owning it; here the
  reference is the index of the target in \<^verbatim>\<open>scene.objects\<close>, which is how main.cpp binds
  every animation of the game scene. It carries a duration, the elapsed time and the
  running flag.
\<close>

record Animation =
  m_object :: nat
  duration :: real
  elapsed :: real
  running :: bool

text \<open>
  Modelled from the spec: the constructor \<^verbatim>\<open>Animation(object, duration)\<close> (missing with
  \<^verbatim>\<open>Animation.h\<close>). The elapsed time starts at 0 and the running flag at false. A
  non-positive duration is a precondition violation with no recovery path: the
  constructor has no result then.
\<close>

definition Animation_ctor :: "nat \<Rightarrow> real \<Rightarrow> Animation option" where
  "Animation_ctor obj d =
     (if d \<le> 0 then None
      else Some \<lparr>m_object = obj, duration = d, elapsed = 0, running = False\<rparr>)"

text \<open>Modelled from the spec: \<^verbatim>\<open>Animation::start\<close> (missing with \<^verbatim>\<open>Animation.h\<close>) resets the
  elapsed time and sets the running flag.\<close>

definition Animation_start :: "'a Animation_scheme \<Rightarrow> 'a Animation_scheme" where
  "Animation_start a = a\<lparr>elapsed := 0, running := True\<rparr>"

text \<open>
  Modelled from the spec: \<^verbatim>\<open>Animation::tick\<close> (missing with \<^verbatim>\<open>Animation.h\<close>) does nothing
  on an animation that is not running. Otherwise it clamps
  the delta to what remains of the duration, calls the virtual \<^verbatim>\<open>applyAnimation\<close> (the
  parameter \<open>applyFn\<close>) with the clamped delta, accumulates it into the elapsed time and
  clears the running flag once the elapsed time has reached the duration. The target
  object is passed in and returned.
\<close>

definition Animation_tick ::
  "('a Animation_scheme \<Rightarrow> real \<Rightarrow> Object3D \<Rightarrow> Object3D) \<Rightarrow> real \<Rightarrow>
   'a Animation_scheme \<Rightarrow> Object3D \<Rightarrow> 'a Animation_scheme \<times> Object3D" where
  "Animation_tick applyFn dt a obj =
     (if \<not> running a then (a, obj)
      else
        let d = min dt (duration a - elapsed a);
            obj' = applyFn a d obj;
            a' = a\<lparr>elapsed := elapsed a + d\<rparr>
        in (if duration a' \<le> elapsed a' then a'\<lparr>running := False\<rparr> else a', obj'))"

subsection \<open>TranslationAnimation.h\<close>

text \<open>
  \<^verbatim>\<open>class TranslationAnimation : public Animation\<close> adds the field \<^verbatim>\<open>m_perSecond\<close>.
  Its constructor initialises the base class first and then \<^verbatim>\<open>m_perSecond(moveBy / duration)\<close>;
  it checks nothing itself. \<^verbatim>\<open>applyAnimation(dt)\<close> is \<^verbatim>\<open>object().move(m_perSecond * dt)\<close>.
\<close>

record TranslationAnimation = Animation +
  m_perSecond :: vec3

definition TranslationAnimation_ctor :: "nat \<Rightarrow> real \<Rightarrow> vec3 \<Rightarrow> TranslationAnimation option" where
  "TranslationAnimation_ctor obj d moveBy =
     (case Animation_ctor obj d of
        None \<Rightarrow> None
      | Some base \<Rightarrow>
          Some \<lparr>m_object = m_object base, duration = duration base, elapsed = elapsed base,
                running = running base, m_perSecond = vec_divide moveBy d\<rparr>)"

definition applyAnimation :: "TranslationAnimation \<Rightarrow> real \<Rightarrow> Object3D \<Rightarrow> Object3D" where
  "applyAnimation a dt obj = move obj (vec_times (m_perSecond a) dt)"

definition TranslationAnimation_tick ::
  "real \<Rightarrow> TranslationAnimation \<Rightarrow> Object3D \<Rightarrow> TranslationAnimation \<times> Object3D" where
  "TranslationAnimation_tick = Animation_tick applyAnimation"

text \<open>A sequence of \<^verbatim>\<open>tick\<close> calls on one animation and its target, in order.\<close>

fun ticks ::
  "('a Animation_scheme \<Rightarrow> real \<Rightarrow> Object3D \<Rightarrow> Object3D) \<Rightarrow> real list \<Rightarrow>
   'a Animation_scheme \<Rightarrow> Object3D \<Rightarrow> 'a Animation_scheme \<times> Object3D" where
  "ticks applyFn [] a obj = (a, obj)"
| "ticks applyFn (dt # dts) a obj =
     (case Animation_tick applyFn dt a obj of (a', obj') \<Rightarrow> ticks applyFn dts a' obj')"

text \<open>A sequence of \<^verbatim>\<open>start\<close> and \<^verbatim>\<open>tick\<close> calls.\<close>

datatype AnimationCall = Start | Tick real

fun calls ::
  "('a Animation_scheme \<Rightarrow> real \<Rightarrow> Object3D \<Rightarrow> Object3D) \<Rightarrow> AnimationCall list \<Rightarrow>
   'a Animation_scheme \<Rightarrow> Object3D \<Rightarrow> 'a Animation_scheme \<times> Object3D" where
  "calls applyFn [] a obj = (a, obj)"
| "calls applyFn (Start # cs) a obj = calls applyFn cs (Animation_start a) obj"
| "calls applyFn (Tick dt # cs) a obj =
     (case Animation_tick applyFn dt a obj of (a', obj') \<Rightarrow> calls applyFn cs a' obj')"

section \<open>Animators\<close>

text \<open>\<^verbatim>\<open>xs[i]\<close> on a vector; an index out of range has no result.\<close>

definition nth_opt :: "'a list \<Rightarrow> nat \<Rightarrow> 'a option" where
  "nth_opt xs i = (if i < length xs then Some (xs ! i) else None)"

text \<open>
  Modelled from the spec: the class \<^verbatim>\<open>Animator\<close> (\<^verbatim>\<open>Animator.h\<close> is not among the sources).
  An animator owns a sequence of animations and the index of the current one.
\<close>

record 'a Animator =
  m_animations :: "'a list"
  m_currentIndex :: nat

text \<open>Modelled from the spec: a new \<^verbatim>\<open>Animator\<close> (missing with \<^verbatim>\<open>Animator.h\<close>) is empty.\<close>

definition Animator_ctor :: "'a Animator" where
  "Animator_ctor = \<lparr>m_animations = [], m_currentIndex = 0\<rparr>"

text \<open>Modelled from the spec: \<^verbatim>\<open>Animator::addAnimation\<close> (missing with \<^verbatim>\<open>Animator.h\<close>) appends
  and starts nothing.\<close>

definition addAnimation :: "'a Animator \<Rightarrow> 'a \<Rightarrow> 'a Animator" where
  "addAnimation am a = am\<lparr>m_animations := m_animations am @ [a]\<rparr>"

text \<open>Modelled from the spec: \<^verbatim>\<open>Animator::start\<close> (missing with \<^verbatim>\<open>Animator.h\<close>) starts the
  animation at the current index; there is nothing to start when the index is past
  the end.\<close>

definition Animator_start :: "'a Animation_scheme Animator \<Rightarrow> 'a Animation_scheme Animator" where
  "Animator_start am =
     (let i = m_currentIndex am; anims = m_animations am
      in if i < length anims then am\<lparr>m_animations := anims[i := Animation_start (anims ! i)]\<rparr>
         else am)"

text \<open>Modelled from the spec: \<^verbatim>\<open>Animator::isRunning\<close> (missing with \<^verbatim>\<open>Animator.h\<close>): the
  current animation exists and is running.\<close>

definition Animator_isRunning :: "'a Animation_scheme Animator \<Rightarrow> bool" where
  "Animator_isRunning am =
     (m_currentIndex am < length (m_animations am) \<and> running (m_animations am ! m_currentIndex am))"

text \<open>
  Modelled from the spec: \<^verbatim>\<open>Animator::tick\<close> (missing with \<^verbatim>\<open>Animator.h\<close>) forwards \<open>dt\<close> to
  the current animation if it is running; if that call stops it, the index is
  incremented and the next animation, if there is one, is started; otherwise the tick
  is ignored. The objects that the animations refer to are passed in and returned; a
  reference to an object that does not exist has no result.
\<close>

definition Animator_tick ::
  "('a Animation_scheme \<Rightarrow> real \<Rightarrow> Object3D \<Rightarrow> Object3D) \<Rightarrow> real \<Rightarrow>
   'a Animation_scheme Animator \<Rightarrow> Object3D list \<Rightarrow>
   ('a Animation_scheme Animator \<times> Object3D list) option" where
  "Animator_tick applyFn dt am objs =
     (let i = m_currentIndex am; anims = m_animations am
      in if i < length anims \<and> running (anims ! i) then
           (case nth_opt objs (m_object (anims ! i)) of
              None \<Rightarrow> None
            | Some obj \<Rightarrow>
                (case Animation_tick applyFn dt (anims ! i) obj of
                   (a', obj') \<Rightarrow>
                     (let objs' = objs[m_object (anims ! i) := obj'];
                          anims' = anims[i := a']
                      in if running a' then Some (am\<lparr>m_animations := anims'\<rparr>, objs')
                         else if Suc i < length anims' then
                           Some (am\<lparr>m_animations := anims'[Suc i := Animation_start (anims' ! Suc i)],
                                    m_currentIndex := Suc i\<rparr>, objs')
                         else Some (am\<lparr>m_animations := anims', m_currentIndex := Suc i\<rparr>, objs'))))
         else Some (am, objs))"

text \<open>A sequence of \<^verbatim>\<open>tick\<close> calls on one animator.\<close>

fun Animator_ticks ::
  "('a Animation_scheme \<Rightarrow> real \<Rightarrow> Object3D \<Rightarrow> Object3D) \<Rightarrow> real list \<Rightarrow>
   'a Animation_scheme Animator \<Rightarrow> Object3D list \<Rightarrow>
   ('a Animation_scheme Animator \<times> Object3D list) option" where
  "Animator_ticks applyFn [] am objs = Some (am, objs)"
| "Animator_ticks applyFn (dt # dts) am objs =
     (case Animator_tick applyFn dt am objs of
        None \<Rightarrow> None
      | Some (am', objs') \<Rightarrow> Animator_ticks applyFn dts am' objs')"

section \<open>The game scene (main.cpp)\<close>

text \<open>
  \<^verbatim>\<open>struct Scene\<close>: the objects and the animators (the shader program only receives
  uniforms and is left out). Every animation of the game scene is a translation.
\<close>

record Scene =
  objects :: "Object3D list"
  animators :: "TranslationAnimation Animator list"

text \<open>
  \<^verbatim>\<open>fnaf(extra)\<close>. The model loader \<^verbatim>\<open>assimpLoad\<close> is external and is a parameter. Nine
  models are placed, the extra objects appended, and four animators built, each with one
  translation of a door: objects 6 and 7 are the right and the left office door.
\<close>

definition doorAnimator :: "nat \<Rightarrow> real \<Rightarrow> vec3 \<Rightarrow> TranslationAnimation Animator option" where
  "doorAnimator obj d moveBy =
     (case TranslationAnimation_ctor obj d moveBy of
        None \<Rightarrow> None
      | Some a \<Rightarrow> Some (addAnimation Animator_ctor a))"

definition fnaf_objects :: "(string \<Rightarrow> Object3D) \<Rightarrow> Object3D list \<Rightarrow> Object3D list" where
  "fnaf_objects assimpLoad extra =
     [ grow (move (assimpLoad ''models/fnaf_movie/freddy/scene.gltf'') (Vec3 0 (- (5/10)) (- 29)))
         (Vec3 (55/100) (55/100) (55/100)),
       grow (move (assimpLoad ''models/fnaf_movie/bonnie/scene.gltf'') (Vec3 (- (5/10)) (- (5/10)) (- (295/10))))
         (Vec3 (5/100) (5/100) (5/100)),
       grow (move (assimpLoad ''models/fnaf_movie/chica/scene.gltf'') (Vec3 (5/10) (- (5/10)) (- (295/10))))
         (Vec3 (5/100) (5/100) (5/100)),
       rotate_obj (grow (move (assimpLoad ''models/fnaf_movie/foxy/scene.gltf'') (Vec3 (- 9) (- (55/100)) (- 28)))
         (Vec3 (5/100) (5/100) (5/100))) (Vec3 0 (M_PI / 4) 0),
       rotate_obj (grow (move (assimpLoad ''models/fnaf_movie/stage/scene.gltf'') (Vec3 0 (55/100) (- 30)))
         (Vec3 (336/1000) (336/1000) (336/1000))) (Vec3 0 M_PI 0),
       move (assimpLoad ''models/fnaf_movie/office/scene.gltf'') (Vec3 0 (- (5/10)) (45/10)),
       grow (move (assimpLoad ''models/fnaf_movie/office_door/scene.gltf'') (Vec3 (85/100) (65/100) (425/100)))
         (Vec3 (2/10) (2/10) (2/10)),
       grow (move (assimpLoad ''models/fnaf_movie/office_door/scene.gltf'') (Vec3 (- (525/1000)) (65/100) (425/100)))
         (Vec3 (2/10) (2/10) (2/10)),
       rotate_obj (grow (move (assimpLoad ''models/fnaf_movie/pirate_cove/scene.gltf'') (Vec3 (- 9) (- (8/10)) (- 28)))
         (Vec3 (84/100) (84/100) (84/100))) (Vec3 0 ((5 * M_PI) / 4) 0)
     ] @ extra"

definition fnaf :: "(string \<Rightarrow> Object3D) \<Rightarrow> Object3D list \<Rightarrow> Scene option" where
  "fnaf assimpLoad extra =
     do {
       animRightDoorDown \<leftarrow> doorAnimator 6 1 (Vec3 0 (- (115/100)) 0);
       animLeftDoorDown \<leftarrow> doorAnimator 7 1 (Vec3 0 (- (115/100)) 0);
       animRightDoorUp \<leftarrow> doorAnimator 6 2 (Vec3 0 (115/100) 0);
       animLeftDoorUp \<leftarrow> doorAnimator 7 2 (Vec3 0 (115/100) 0);
       Some \<lparr>objects = fnaf_objects assimpLoad extra,
             animators = [animRightDoorDown, animLeftDoorDown, animRightDoorUp, animLeftDoorUp]\<rparr>
     }"

subsection \<open>Events and the doors\<close>

datatype Key = Key_Q | Key_E | Key_Num1 | Key_Num2 | Key_Num3 | Key_A | Key_D | Key_W | Key_S | Key_Space | Key_LControl | Key_Other

datatype Event = Closed | KeyPressed Key | OtherEvent

text \<open>\<^verbatim>\<open>scene.animators[i].start()\<close>; an index out of range has no result.\<close>

definition startAnimator :: "nat \<Rightarrow> Scene \<Rightarrow> Scene option" where
  "startAnimator i scene =
     (case nth_opt (animators scene) i of
        None \<Rightarrow> None
      | Some am \<Rightarrow> Some (scene\<lparr>animators := (animators scene)[i := Animator_start am]\<rparr>))"

text \<open>\<^verbatim>\<open>scene.objects[i].setPosition(glm::clamp(scene.objects[i].getPosition(), lo, hi))\<close>.\<close>

definition clampPosition :: "nat \<Rightarrow> vec3 \<Rightarrow> vec3 \<Rightarrow> Scene \<Rightarrow> Scene option" where
  "clampPosition i lo hi scene =
     (case nth_opt (objects scene) i of
        None \<Rightarrow> None
      | Some obj \<Rightarrow>
          Some (scene\<lparr>objects := (objects scene)[i := setPosition obj (glm_clamp (getPosition obj) lo hi)]\<rparr>))"

text \<open>
  \<^verbatim>\<open>doorAction(scene, leftDoorClosed, rightDoorClosed, event)\<close> (main.cpp, lines 314 to 345).
  The three references are passed in and returned.
\<close>

definition doorAction :: "Scene \<Rightarrow> bool \<Rightarrow> bool \<Rightarrow> Event \<Rightarrow> (Scene \<times> bool \<times> bool) option" where
  "doorAction scene leftDoorClosed rightDoorClosed event =
     do {
       (scene, leftDoorClosed) \<leftarrow>
         (if event = KeyPressed Key_Q then
            (if \<not> leftDoorClosed then do { s \<leftarrow> startAnimator 1 scene; Some (s, True) }
             else if leftDoorClosed then do { s \<leftarrow> startAnimator 3 scene; Some (s, False) }
             else Some (scene, leftDoorClosed))
          else Some (scene, leftDoorClosed));
       (scene, rightDoorClosed) \<leftarrow>
         (if event = KeyPressed Key_E then
            (if \<not> rightDoorClosed then do { s \<leftarrow> startAnimator 0 scene; Some (s, True) }
             else if rightDoorClosed then do { s \<leftarrow> startAnimator 2 scene; Some (s, False) }
             else Some (scene, rightDoorClosed))
          else Some (scene, rightDoorClosed));
       scene \<leftarrow> clampPosition 6 (Vec3 (85/100) (- (5/10)) (425/100)) (Vec3 (85/100) (65/100) (425/100)) scene;
       scene \<leftarrow> clampPosition 7 (Vec3 (- (525/1000)) (- (5/10)) (425/100)) (Vec3 (- (525/1000)) (65/100) (425/100)) scene;
       Some (scene, leftDoorClosed, rightDoorClosed)
     }"

subsection \<open>Cameras\<close>

definition glm_normalize :: "vec3 \<Rightarrow> vec3" where
  "glm_normalize v = vec_divide v (sqrt (dot v v))"

text \<open>
  \<^verbatim>\<open>movement\<close> (lines 282 to 312) moves the player camera by the keys held down; the
  position, the forward vector and the yaw are passed in and returned.
\<close>

definition movement ::
  "(Key \<Rightarrow> bool) \<Rightarrow> vec3 \<Rightarrow> vec3 \<Rightarrow> real \<Rightarrow> real \<Rightarrow> real \<Rightarrow> real \<Rightarrow> vec3 \<times> vec3 \<times> real" where
  "movement isKeyPressed cameraPos cameraForwards yaw deltaTime moveSpeed rotationSpeed =
     (let yaw = (if isKeyPressed Key_A then yaw - rotationSpeed * deltaTime else yaw);
          yaw = (if isKeyPressed Key_D then yaw + rotationSpeed * deltaTime else yaw);
          cameraForwards = glm_normalize (Vec3 (cos yaw) 0 (sin yaw));
          cameraPos = (if isKeyPressed Key_W
                       then cameraPos + vec_times (vec_times cameraForwards deltaTime) moveSpeed
                       else cameraPos);
          cameraPos = (if isKeyPressed Key_S
                       then cameraPos - vec_times (vec_times cameraForwards deltaTime) moveSpeed
                       else cameraPos);
          cameraPos = (if isKeyPressed Key_Space
                       then Vec3 (vx cameraPos) (vy cameraPos + moveSpeed * deltaTime) (vz cameraPos)
                       else cameraPos);
          cameraPos = (if isKeyPressed Key_LControl
                       then Vec3 (vx cameraPos) (vy cameraPos - moveSpeed * deltaTime) (vz cameraPos)
                       else cameraPos)
      in (cameraPos, cameraForwards, yaw))"

text \<open>
  Each camera is a \<^verbatim>\<open>std::map<std::string, glm::vec3>\<close> with the three keys
  \<^verbatim>\<open>cameraPos\<close>, \<^verbatim>\<open>cameraForwards\<close> and \<^verbatim>\<open>cameraUp\<close>.
\<close>

record Camera =
  cameraPos :: vec3
  cameraForwards :: vec3
  cameraUp :: vec3

definition stageCamera :: Camera where
  "stageCamera = \<lparr>cameraPos = Vec3 0 1 (- 28), cameraForwards = Vec3 0 0 (- 1), cameraUp = Vec3 0 1 0\<rparr>"

definition coveCamera :: Camera where
  "coveCamera = \<lparr>cameraPos = Vec3 (- 9) (6/10) (- (2715/100)), cameraForwards = Vec3 (- 1) 0 (- 1),
                  cameraUp = Vec3 0 1 0\<rparr>"

definition hallCamera :: Camera where
  "hallCamera = \<lparr>cameraPos = Vec3 (- 1) (7/10) 3, cameraForwards = Vec3 (- 1) 0 (- 1), cameraUp = Vec3 0 1 0\<rparr>"

text \<open>\<^verbatim>\<open>cameraAction\<close> (lines 347 to 363): the keys 1, 2 and 3 select the security camera.\<close>

definition cameraAction :: "Camera \<Rightarrow> int \<Rightarrow> Event \<Rightarrow> Camera \<times> int" where
  "cameraAction activeCamInfo activeCam event =
     (case event of
        KeyPressed key \<Rightarrow>
          (let (activeCamInfo, activeCam) =
                 (if key = Key_Num1 then (stageCamera, 0) else (activeCamInfo, activeCam));
               (activeCamInfo, activeCam) =
                 (if key = Key_Num2 then (coveCamera, 1) else (activeCamInfo, activeCam));
               (activeCamInfo, activeCam) =
                 (if key = Key_Num3 then (hallCamera, 2) else (activeCamInfo, activeCam))
           in (activeCamInfo, activeCam))
      | _ \<Rightarrow> (activeCamInfo, activeCam))"

subsection \<open>The frame loop\<close>

text \<open>
  The local variables of \<^verbatim>\<open>main\<close> that live across iterations of the frame loop, with
  the names of the source (\<open>last_time\<close> is \<^verbatim>\<open>last\<close>); \<open>windowOpen\<close> stands for
  \<^verbatim>\<open>window.isOpen()\<close>.
\<close>

record MainState =
  myScene :: Scene
  playerCamera :: Camera
  securityCamera :: Camera
  yaw :: real
  cameraYaw :: real
  deltaYaw :: real
  leftDoorClosed :: bool
  rightDoorClosed :: bool
  activeCam :: int
  distanceMoved :: real
  alive :: bool
  foxyEvent :: bool
  foxyReset :: bool
  last_time :: real
  windowOpen :: bool

text \<open>The constants among the locals (lines 455 to 467).\<close>

definition pitch :: real where
  "pitch = - M_PI / 4"

definition moveSpeed :: real where
  "moveSpeed = 3"

definition rotationSpeed :: real where
  "rotationSpeed = 2"

definition foxyVelocity :: real where
  "foxyVelocity = 2"

definition foxyAcceleration :: real where
  "foxyAcceleration = 14/10"

definition foxyTrigger :: real where
  "foxyTrigger = 30"

text \<open>The state before the first iteration (lines 421 to 486), for the scene that was built.\<close>

definition initialState :: "Scene \<Rightarrow> real \<Rightarrow> MainState" where
  "initialState scene t =
     \<lparr>myScene = scene,
      playerCamera = \<lparr>cameraPos = Vec3 0 0 5, cameraForwards = Vec3 0 0 (- 1), cameraUp = Vec3 0 1 0\<rparr>,
      securityCamera = stageCamera,
      yaw = - M_PI / 2, cameraYaw = - M_PI / 2, deltaYaw = M_PI / 8,
      leftDoorClosed = False, rightDoorClosed = False, activeCam = 0,
      distanceMoved = 0, alive = True, foxyEvent = False, foxyReset = False,
      last_time = t, windowOpen = True\<rparr>"

text \<open>
  What one iteration reads from outside: the events polled, the clock (\<open>now\<close> at line
  498, and the two readings of line 513) and the keyboard.
\<close>

record FrameInput =
  events :: "Event list"
  now :: real
  foxyClock1 :: real
  foxyClock2 :: real
  isKeyPressed :: "Key \<Rightarrow> bool"

text \<open>The event loop (lines 491 to 497).\<close>

fun pollEvents :: "Event list \<Rightarrow> MainState \<Rightarrow> MainState option" where
  "pollEvents [] st = Some st"
| "pollEvents (event # rest) st =
     do {
       let st = (if event = Closed then st\<lparr>windowOpen := False\<rparr> else st);
       (scene, l, r) \<leftarrow> doorAction (myScene st) (leftDoorClosed st) (rightDoorClosed st) event;
       let st = st\<lparr>myScene := scene, leftDoorClosed := l, rightDoorClosed := r\<rparr>;
       let (cam, active) = cameraAction (securityCamera st) (activeCam st) event;
       let st = st\<lparr>securityCamera := cam, activeCam := active\<rparr>;
       pollEvents rest st
     }"

text \<open>\<^verbatim>\<open>foxy\<close> is a reference to \<^verbatim>\<open>myScene.objects[3]\<close>.\<close>

definition updateFoxy :: "(Object3D \<Rightarrow> Object3D) \<Rightarrow> MainState \<Rightarrow> MainState option" where
  "updateFoxy f st =
     (case nth_opt (objects (myScene st)) 3 of
        None \<Rightarrow> None
      | Some foxy \<Rightarrow> Some (st\<lparr>myScene := (myScene st)\<lparr>objects := (objects (myScene st))[3 := f foxy]\<rparr>\<rparr>))"

text \<open>Foxy running down the hallway (lines 512 to 539).\<close>

definition foxyStep :: "real \<Rightarrow> real \<Rightarrow> real \<Rightarrow> MainState \<Rightarrow> MainState option" where
  "foxyStep clock1 clock2 deltaTime st =
     do {
       let st = (if clock1 > foxyTrigger \<and> clock2 < foxyTrigger + 1 then st\<lparr>foxyEvent := True\<rparr> else st);
       let deltaMove = (foxyAcceleration * foxyVelocity) * deltaTime;
       st \<leftarrow> (if foxyEvent st \<and> distanceMoved st < 8 then
                do {
                  st \<leftarrow> updateFoxy (\<lambda>foxy. move foxy (Vec3 deltaMove 0 deltaMove)) st;
                  Some (st\<lparr>distanceMoved := distanceMoved st + deltaMove\<rparr>)
                }
              else Some st);
       st \<leftarrow> (if foxyEvent st \<and> distanceMoved st > 8 \<and> distanceMoved st < 32 then
                do {
                  st \<leftarrow> updateFoxy (\<lambda>foxy. move foxy (Vec3 0 0 deltaMove)) st;
                  Some (st\<lparr>distanceMoved := distanceMoved st + deltaMove\<rparr>)
                }
              else Some st);
       st \<leftarrow> (if foxyEvent st \<and> distanceMoved st > 32 then
                do {
                  st \<leftarrow> (if \<not> leftDoorClosed st \<and> alive st then
                           do {
                             st \<leftarrow> updateFoxy (\<lambda>foxy. rotate_obj foxy (Vec3 0 0 (- M_PI / 8))) st;
                             Some (st\<lparr>alive := False\<rparr>)
                           }
                         else Some st);
                  Some (if leftDoorClosed st then st\<lparr>foxyEvent := False, foxyReset := True\<rparr> else st)
                }
              else Some st);
       (if foxyReset st then
          do {
            st \<leftarrow> updateFoxy (\<lambda>foxy. setPosition foxy (Vec3 (- 9) (- (55/100)) (- 28))) st;
            st \<leftarrow> updateFoxy (\<lambda>foxy. setOrientation foxy (Vec3 0 (M_PI / 4) 0)) st;
            Some (st\<lparr>foxyReset := False\<rparr>)
          }
        else Some st)
     }"

text \<open>The security camera is tilted down and panned (lines 541 to 556).\<close>

definition tiltSecurityCamera :: "MainState \<Rightarrow> MainState" where
  "tiltSecurityCamera st =
     (let front = Vec3 (cos pitch * cos (cameraYaw st)) (sin pitch) (cos pitch * sin (cameraYaw st))
      in st\<lparr>securityCamera := (securityCamera st)\<lparr>cameraForwards := glm_normalize front\<rparr>\<rparr>)"

definition panSecurityCamera :: "real \<Rightarrow> MainState \<Rightarrow> MainState" where
  "panSecurityCamera deltaTime st =
     (let st = st\<lparr>cameraYaw := cameraYaw st + deltaYaw st * deltaTime\<rparr>;
          st = (if cameraYaw st > - M_PI / 4
                then st\<lparr>cameraYaw := - M_PI / 4, deltaYaw := - \<bar>deltaYaw st\<bar>\<rparr> else st);
          st = (if cameraYaw st < - 3 * M_PI / 4
                then st\<lparr>cameraYaw := - 3 * M_PI / 4, deltaYaw := \<bar>deltaYaw st\<bar>\<rparr> else st)
      in st)"

text \<open>\<^verbatim>\<open>for (auto& o : myScene.objects) o.render(myScene.program)\<close>.\<close>

definition renderObjects :: "Object3D list \<Rightarrow> mat4 list" where
  "renderObjects objs = concat (map render objs)"

text \<open>\<^verbatim>\<open>for (auto& anim : myScene.animators) anim.tick(dt)\<close>, on the objects of the scene.\<close>

fun tickAnimators ::
  "real \<Rightarrow> TranslationAnimation Animator list \<Rightarrow> Object3D list \<Rightarrow>
   (TranslationAnimation Animator list \<times> Object3D list) option" where
  "tickAnimators dt [] objs = Some ([], objs)"
| "tickAnimators dt (anim # rest) objs =
     do {
       (anim', objs) \<leftarrow> Animator_tick applyAnimation dt anim objs;
       (rest', objs) \<leftarrow> tickAnimators dt rest objs;
       Some (anim' # rest', objs)
     }"

text \<open>
  What an iteration does to the outside, in the order of the source: the log of the
  steps. A render pass is logged with the world transforms its draw calls use. The
  steps stand for these lines of main.cpp: \<open>PollEvents\<close> 491 to 497, \<open>MovePlayer\<close> 503,
  \<open>MoveFoxy\<close> 512 to 539, \<open>PanSecurityCamera\<close> 541 to 556, \<open>BindFramebuffer\<close> 559 and 582,
  \<open>SetView\<close> 565 to 573 and 588 to 597, \<open>RenderPass\<close> 577 to 579 and 607 to 609,
  \<open>TickAnimators\<close> 600 to 602, \<open>Display\<close> 612.
\<close>

datatype Framebuffer = SecurityTexture | Window

datatype FrameStep =
    PollEvents "Event list"
  | MovePlayer
  | MoveFoxy
  | PanSecurityCamera
  | BindFramebuffer Framebuffer
  | SetView Camera
  | RenderPass "mat4 list"
  | TickAnimators real
  | Display

text \<open>
  The part of an iteration before anything is drawn (lines 491 to 556): events, the
  time step, the player, Foxy and the security camera.
\<close>

definition update :: "FrameInput \<Rightarrow> MainState \<Rightarrow> MainState option" where
  "update inp st =
     do {
       st \<leftarrow> pollEvents (events inp) st;
       let deltaTime = now inp - last_time st;
       let st = st\<lparr>last_time := now inp\<rparr>;
       let (pos, forwards, y) =
             movement (isKeyPressed inp) (cameraPos (playerCamera st)) (cameraForwards (playerCamera st))
               (yaw st) deltaTime moveSpeed rotationSpeed;
       let st = st\<lparr>playerCamera := (playerCamera st)\<lparr>cameraPos := pos, cameraForwards := forwards\<rparr>, yaw := y\<rparr>;
       st \<leftarrow> foxyStep (foxyClock1 inp) (foxyClock2 inp) deltaTime st;
       Some (panSecurityCamera deltaTime (tiltSecurityCamera st))
     }"

text \<open>
  One iteration of \<^verbatim>\<open>while (window.isOpen())\<close> (lines 489 to 613): the update, the
  security camera pass into the texture (lines 558 to 579), the set-up of the player
  camera pass (lines 581 to 597), the animators (lines 599 to 602), the drawing of the
  player camera pass (lines 604 to 609) and the display.
\<close>

definition frame :: "FrameInput \<Rightarrow> MainState \<Rightarrow> (MainState \<times> FrameStep list) option" where
  "frame inp st =
     do {
       let deltaTime = now inp - last_time st;
       st \<leftarrow> update inp st;
       let securityPass = renderObjects (objects (myScene st));
       let securityView = securityCamera st;
       let playerView = playerCamera st;
       (anims, objs) \<leftarrow> tickAnimators deltaTime (animators (myScene st)) (objects (myScene st));
       let st = st\<lparr>myScene := \<lparr>objects = objs, animators = anims\<rparr>\<rparr>;
       let playerPass = renderObjects (objects (myScene st));
       Some (st,
         [PollEvents (events inp), MovePlayer, MoveFoxy, PanSecurityCamera,
          BindFramebuffer SecurityTexture, SetView securityView, RenderPass securityPass,
          BindFramebuffer Window, SetView playerView,
          TickAnimators deltaTime, RenderPass playerPass, Display])
     }"

text \<open>
  The frame loop itself, run on the inputs of its successive iterations for as long as
  the window is open; the logs of the iterations are appended.
\<close>

fun mainLoop :: "FrameInput list \<Rightarrow> MainState \<Rightarrow> (MainState \<times> FrameStep list) option" where
  "mainLoop [] st = Some (st, [])"
| "mainLoop (inp # rest) st =
     (if windowOpen st then
        do {
          (st, steps) \<leftarrow> frame inp st;
          (st, more_steps) \<leftarrow> mainLoop rest st;
          Some (st, steps @ more_steps)
        }
      else Some (st, []))"

text \<open>
  What the indexing in \<^verbatim>\<open>doorAction\<close> and in the frame loop relies on: the scene has the
  eight objects and the four animators that are indexed, and every animation refers to
  an object of the scene.
\<close>

definition targetsExist :: "nat \<Rightarrow> 'a Animation_scheme Animator \<Rightarrow> bool" where
  "targetsExist n am = (\<forall>a\<in>set (m_animations am). m_object a < n)"

definition sceneReady :: "Scene \<Rightarrow> bool" where
  "sceneReady scene =
     (8 \<le> length (objects scene) \<and> 4 \<le> length (animators scene) \<and>
      (\<forall>am\<in>set (animators scene). targetsExist (length (objects scene)) am))"

subsection \<open>A scene to evaluate on\<close>

text \<open>
  A loader that yields the same plain model for every path, the state in which \<^verbatim>\<open>main\<close>
  enters the frame loop with the scene built from it, and the input of an iteration in
  which the key E arrives half a second after the start.
\<close>

definition plainModel :: "string \<Rightarrow> Object3D" where
  "plainModel path = Object3D 0 0 (Vec3 1 1 1) []"

definition pressE :: FrameInput where
  "pressE = \<lparr>events = [KeyPressed Key_E], now = 1/2, foxyClock1 = 1/2, foxyClock2 = 1/2,
             isKeyPressed = (\<lambda>key. False)\<rparr>"

definition st0 :: MainState where
  "st0 = initialState (the (fnaf plainModel [])) 0"

text \<open>The translation of a transform by a vector.\<close>

definition shift :: "vec3 \<Rightarrow> mat4 \<Rightarrow> mat4" where
  "shift v m = Mat4 (linear m) (translation m + v)"

section \<open>Properties of animations\<close>

lemma move_zero: "move obj 0 = obj"
  by (cases obj) (simp add: move_def)

lemma move_move: "move (move obj u) v = move obj (u + v)"
  by (simp add: move_def add.assoc)

lemma vec_times_add: "vec_times r s + vec_times r t = vec_times r (s + t)"
  by (simp add: vec_times_def plus_vec3_def algebra_simps)

lemma vec_times_zero: "vec_times r 0 = 0"
  by (simp add: vec_times_def zero_vec3_def)

lemma vec_divide_times: "d \<noteq> 0 \<Longrightarrow> vec_times (vec_divide v d) d = v"
  by (cases v) (simp add: vec_times_def vec_divide_def)

lemma Animation_tick_stopped: "\<not> running a \<Longrightarrow> Animation_tick applyFn dt a obj = (a, obj)"
  by (simp add: Animation_tick_def)

lemma Animation_tick_running:
  "running a \<Longrightarrow>
   Animation_tick applyFn dt a obj =
     (a\<lparr>elapsed := elapsed a + min dt (duration a - elapsed a),
        running := elapsed a + min dt (duration a - elapsed a) < duration a\<rparr>,
      applyFn a (min dt (duration a - elapsed a)) obj)"
  by (cases a) (auto simp add: Animation_tick_def Let_def)

lemma ticks_stopped: "\<not> running a \<Longrightarrow> ticks applyFn dts a obj = (a, obj)"
  by (induction dts) (simp_all add: Animation_tick_stopped)

lemma calls_invariant:
  "0 < duration a \<Longrightarrow> elapsed a \<le> duration a \<Longrightarrow> (running a \<longrightarrow> elapsed a < duration a) \<Longrightarrow>
   calls applyFn cs a obj = (a', obj') \<Longrightarrow>
   duration a' = duration a \<and> elapsed a' \<le> duration a \<and> (running a' \<longrightarrow> elapsed a' < duration a)"
proof (induction cs arbitrary: a obj)
  case Nil
  then show ?case by simp
next
  case (Cons c cs)
  show ?case
  proof (cases c)
    case Start
    with Cons.prems have "calls applyFn cs (Animation_start a) obj = (a', obj')" by simp
    from Cons.IH[OF _ _ _ this] Cons.prems(1) show ?thesis
      by (simp add: Animation_start_def)
  next
    case (Tick dt)
    obtain a1 obj1 where t: "Animation_tick applyFn dt a obj = (a1, obj1)" by force
    with Cons.prems Tick have r: "calls applyFn cs a1 obj1 = (a', obj')" by simp
    have "duration a1 = duration a \<and> elapsed a1 \<le> duration a \<and> (running a1 \<longrightarrow> elapsed a1 < duration a)"
    proof (cases "running a")
      case True
      from t show ?thesis unfolding Animation_tick_running[OF True] by auto
    next
      case False
      with t Cons.prems show ?thesis by (simp add: Animation_tick_stopped)
    qed
    with Cons.IH[OF _ _ _ r] Cons.prems(1) show ?thesis by simp
  qed
qed

lemma ticks_translation:
  "running a \<Longrightarrow> elapsed a < duration a \<Longrightarrow> \<forall>dt\<in>set dts. 0 \<le> dt \<Longrightarrow>
   ticks applyAnimation dts a obj =
     (a\<lparr>elapsed := min (duration a) (elapsed a + sum_list dts),
        running := min (duration a) (elapsed a + sum_list dts) < duration a\<rparr>,
      move obj (vec_times (m_perSecond a) (min (duration a) (elapsed a + sum_list dts) - elapsed a)))"
proof (induction dts arbitrary: a obj)
  case Nil
  then show ?case by (cases a) (simp add: vec_times_zero move_zero)
next
  case (Cons dt dts)
  let ?d = "min dt (duration a - elapsed a)"
  let ?a1 = "a\<lparr>elapsed := elapsed a + ?d, running := elapsed a + ?d < duration a\<rparr>"
  let ?o1 = "applyAnimation a ?d obj"
  have step: "ticks applyAnimation (dt # dts) a obj = ticks applyAnimation dts ?a1 ?o1"
    by (simp add: Animation_tick_running[OF Cons.prems(1)])
  have dt: "0 \<le> dt" and rest: "\<forall>dt\<in>set dts. 0 \<le> dt" and s: "0 \<le> sum_list dts"
    using Cons.prems(3) by (auto intro: sum_list_nonneg)
  show ?case
  proof (cases "elapsed a + ?d < duration a")
    case True
    then have d: "?d = dt" by (simp add: min_def split: if_splits)
    have r1: "running ?a1" using True by simp
    have e1: "elapsed ?a1 < duration ?a1" using True by simp
    show ?thesis
      unfolding step Cons.IH[OF r1 e1 rest]
      using d by (simp add: applyAnimation_def move_move vec_times_add add.assoc)
  next
    case False
    then have d: "?d = duration a - elapsed a" using Cons.prems(2) by (simp add: min_def split: if_splits)
    have "\<not> running ?a1" using False by simp
    then have "ticks applyAnimation dts ?a1 ?o1 = (?a1, ?o1)" by (rule ticks_stopped)
    moreover have "min (duration a) (elapsed a + sum_list (dt # dts)) = duration a"
      using d s by (simp add: min_def split: if_splits)
    ultimately show ?thesis
      unfolding step using d by (simp add: applyAnimation_def)
  qed
qed

lemma TranslationAnimation_ctor_Some:
  "TranslationAnimation_ctor ref D T = Some a \<longleftrightarrow>
   0 < D \<and> a = \<lparr>m_object = ref, duration = D, elapsed = 0, running = False, m_perSecond = vec_divide T D\<rparr>"
  by (auto simp add: TranslationAnimation_ctor_def Animation_ctor_def)

lemma sum_list_replicate_real: "sum_list (replicate n (c::real)) = real n * c"
  by (induction n) (simp_all add: algebra_simps)

lemma Animation_tick_perSecond:
  "m_perSecond (fst (Animation_tick applyFn dt a obj)) = m_perSecond a"
  by (simp add: Animation_tick_def Let_def)

lemma calls_perSecond:
  "m_perSecond (fst (calls applyFn cs a obj)) = m_perSecond a"
proof (induction cs arbitrary: a obj)
  case Nil
  show ?case by simp
next
  case (Cons c cs)
  show ?case
  proof (cases c)
    case Start
    then show ?thesis using Cons.IH[of "Animation_start a" obj] by (simp add: Animation_start_def)
  next
    case (Tick dt)
    obtain a1 obj1 where t: "Animation_tick applyFn dt a obj = (a1, obj1)" by force
    have "m_perSecond a1 = m_perSecond a" using Animation_tick_perSecond[of applyFn dt a obj] t by simp
    then show ?thesis using Cons.IH[of a1 obj1] Tick t by simp
  qed
qed

lemma ticks_equal_subticks:
  assumes "TranslationAnimation_ctor ref D T = Some a" and "0 < N"
  shows "ticks applyAnimation (replicate N (D / real N)) (Animation_start a) obj =
         ((Animation_start a)\<lparr>elapsed := D, running := False\<rparr>, move obj T)"
proof -
  from assms(1) have D: "0 < D" and a: "duration a = D" "m_perSecond a = vec_divide T D"
    by (auto simp add: TranslationAnimation_ctor_Some)
  let ?s = "Animation_start a"
  have s: "running ?s" "elapsed ?s = 0" "duration ?s = D" "m_perSecond ?s = vec_divide T D"
    using a by (simp_all add: Animation_start_def)
  have lt: "elapsed ?s < duration ?s" using s D by simp
  have nn: "\<forall>dt\<in>set (replicate N (D / real N)). 0 \<le> dt" using D by simp
  have sum: "sum_list (replicate N (D / real N)) = D"
    using assms(2) by (simp add: sum_list_replicate_real)
  have "vec_times (vec_divide T D) D = T" using D by (simp add: vec_divide_times)
  then show ?thesis
    using ticks_translation[OF s(1) lt nn, of obj] s sum by simp
qed

text \<open>
  C4. The constructor computes the rate \<open>T / D\<close> once; no \<^verbatim>\<open>start\<close> or \<^verbatim>\<open>tick\<close> changes it.
  \<^verbatim>\<open>applyAnimation\<close> called with a delta \<open>dt\<close> moves the target by \<open>(T / D) * dt\<close> through
  \<^verbatim>\<open>move\<close>, and a \<^verbatim>\<open>tick\<close> of the running animation does so with the delta it forwards.
\<close>

theorem translation_rate_and_step:
  assumes "TranslationAnimation_ctor ref D T = Some a"
  shows "m_perSecond a = vec_divide T D
       \<and> applyAnimation a dt obj = move obj (vec_times (vec_divide T D) dt)
       \<and> m_position (applyAnimation a dt obj) = m_position obj + vec_times (vec_divide T D) dt
       \<and> m_perSecond (fst (calls applyAnimation cs a obj)) = vec_divide T D
       \<and> (running (fst (calls applyAnimation cs a obj)) \<longrightarrow>
            snd (TranslationAnimation_tick dt (fst (calls applyAnimation cs a obj)) obj2) =
              move obj2 (vec_times (vec_divide T D)
                (min dt (D - elapsed (fst (calls applyAnimation cs a obj))))))"
proof -
  let ?a1 = "fst (calls applyAnimation cs a obj)"
  from assms have D: "0 < D" and a: "m_perSecond a = vec_divide T D" "duration a = D"
    "elapsed a = 0" "\<not> running a"
    by (auto simp add: TranslationAnimation_ctor_Some)
  have ps: "m_perSecond ?a1 = vec_divide T D" using a(1) by (simp add: calls_perSecond)
  have inv: "duration ?a1 = duration a"
    using calls_invariant[of a applyAnimation cs obj ?a1 "snd (calls applyAnimation cs a obj)"] D a
    by simp
  have "running ?a1 \<Longrightarrow> snd (TranslationAnimation_tick dt ?a1 obj2) =
      move obj2 (vec_times (vec_divide T D) (min dt (D - elapsed ?a1)))"
    using ps inv a(2)
    by (simp add: TranslationAnimation_tick_def Animation_tick_running applyAnimation_def)
  then show ?thesis using a(1) ps by (simp add: applyAnimation_def move_def)
qed

theorem translation_rate_and_step_witness:
  "m_position (applyAnimation \<lparr>m_object = 6, duration = 2, elapsed = 0, running = False,
                        m_perSecond = Vec3 0 (23/40) 0\<rparr> (1/2)
      (Object3D (Vec3 (17/20) (- (1/2)) (17/4)) 0 (Vec3 (1/5) (1/5) (1/5)) []))
   = Vec3 (17/20) (- (17/80)) (17/4)
   \<and> snd (TranslationAnimation_tick (1/2)
        (fst (calls applyAnimation [Start, Tick 1]
           \<lparr>m_object = 6, duration = 2, elapsed = 0, running = False, m_perSecond = Vec3 0 (23/40) 0\<rparr>
           (Object3D (Vec3 (17/20) (- (1/2)) (17/4)) 0 (Vec3 (1/5) (1/5) (1/5)) [])))
        (Object3D 0 0 0 []))
     = Object3D (Vec3 0 (23/80) 0) 0 0 []"
  using translation_rate_and_step[of 6 2 "Vec3 0 (23/20) 0" _ "1/2"
      "Object3D (Vec3 (17/20) (- (1/2)) (17/4)) 0 (Vec3 (1/5) (1/5) (1/5)) []" "[Start, Tick 1]"
      "Object3D 0 0 0 []"]
  by (simp add: TranslationAnimation_ctor_Some vec_divide_def vec_times_def move_def plus_vec3_def
      zero_vec3_def Animation_tick_def Animation_start_def Let_def)

text \<open>
  C7. Constructing a translation animation with a non-positive duration yields no
  animation: the base class constructor rejects it before the rate is computed.
\<close>

theorem nonpositive_duration_rejected:
  assumes "D \<le> 0"
  shows "TranslationAnimation_ctor ref D T = None"
  using assms by (simp add: TranslationAnimation_ctor_def Animation_ctor_def)

theorem nonpositive_duration_rejected_witness:
  "TranslationAnimation_ctor 6 0 (Vec3 0 (- (23/20)) 0) = None
   \<and> TranslationAnimation_ctor 6 (- 1) (Vec3 0 (- (23/20)) 0) = None"
  using nonpositive_duration_rejected[of 0 6 "Vec3 0 (- (23/20)) 0"]
    nonpositive_duration_rejected[of "- 1" 6 "Vec3 0 (- (23/20)) 0"]
  by simp

text \<open>
  C8. After any sequence of \<^verbatim>\<open>start\<close> and \<^verbatim>\<open>tick\<close> calls on a constructed animation of any
  kind, the elapsed time is at most the duration, and the animation is running only
  while the elapsed time is below the duration.
\<close>

theorem elapsed_never_exceeds_duration:
  assumes "Animation_ctor ref D = Some (Animation.truncate a)"
  shows "elapsed (fst (calls applyFn cs a obj)) \<le> D
       \<and> duration (fst (calls applyFn cs a obj)) = D
       \<and> (running (fst (calls applyFn cs a obj)) \<longrightarrow> elapsed (fst (calls applyFn cs a obj)) < D)"
proof -
  from assms have D: "0 < D" and a: "duration a = D" "elapsed a = 0" "\<not> running a"
    by (auto simp add: Animation_ctor_def Animation.truncate_def split: if_splits)
  show ?thesis
    using calls_invariant[of a applyFn cs obj "fst (calls applyFn cs a obj)" "snd (calls applyFn cs a obj)"]
      D a by simp
qed

theorem elapsed_never_exceeds_duration_witness:
  "elapsed (fst (calls applyAnimation [Start, Tick (3/4), Tick (3/4), Tick 5, Start, Tick (1/4)]
      \<lparr>m_object = 6, duration = 1, elapsed = 0, running = False, m_perSecond = Vec3 0 (- (23/20)) 0\<rparr>
      (Object3D (Vec3 (17/20) (13/20) (17/4)) 0 (Vec3 (1/5) (1/5) (1/5)) []))) \<le> 1
   \<and> elapsed (fst (calls applyAnimation [Start, Tick (3/4), Tick (3/4)]
      \<lparr>m_object = 6, duration = 1, elapsed = 0, running = False, m_perSecond = Vec3 0 (- (23/20)) 0\<rparr>
      (Object3D (Vec3 (17/20) (13/20) (17/4)) 0 (Vec3 (1/5) (1/5) (1/5)) []))) = 1"
  using elapsed_never_exceeds_duration[of 6 1
      "\<lparr>m_object = 6, duration = 1, elapsed = 0, running = False, m_perSecond = Vec3 0 (- (23/20)) 0\<rparr>"
      applyAnimation "[Start, Tick (3/4), Tick (3/4), Tick 5, Start, Tick (1/4)]"
      "Object3D (Vec3 (17/20) (13/20) (17/4)) 0 (Vec3 (1/5) (1/5) (1/5)) []"]
  by (simp add: Animation_ctor_def Animation.truncate_def Animation_tick_def Animation_start_def Let_def)

subsection \<open>Totals in exact arithmetic\<close>

text \<open>
  The next two lemmas hold in exact arithmetic only. With no rounding, a translation
  animation that is started and ticked with non-negative deltas summing to at least
  its duration moves its target by the total displacement, and splitting the duration
  into 1, 2 or 100 equal deltas gives the same final state. The program computes in
  \<^verbatim>\<open>float\<close>, where each product \<^verbatim>\<open>m_perSecond * dt\<close> and each sum in \<^verbatim>\<open>move\<close> is rounded, so
  these equalities are properties of the clamping of the deltas and not of the
  numbers the program produces.
\<close>

lemma exact_arithmetic_total_displacement:
  assumes "TranslationAnimation_ctor ref D T = Some a"
    and "\<forall>dt\<in>set dts. 0 \<le> dt"
    and "D \<le> sum_list dts"
  shows "snd (ticks applyAnimation dts (Animation_start a) obj) = move obj T
       \<and> m_position (snd (ticks applyAnimation dts (Animation_start a) obj)) - m_position obj = T
       \<and> elapsed (fst (ticks applyAnimation dts (Animation_start a) obj)) = D
       \<and> \<not> running (fst (ticks applyAnimation dts (Animation_start a) obj))"
proof -
  from assms(1) have D: "0 < D" and a: "duration a = D" "m_perSecond a = vec_divide T D"
    by (auto simp add: TranslationAnimation_ctor_Some)
  let ?s = "Animation_start a"
  have s: "running ?s" "elapsed ?s = 0" "duration ?s = D" "m_perSecond ?s = vec_divide T D"
    using a by (simp_all add: Animation_start_def)
  have lt: "elapsed ?s < duration ?s" using s D by simp
  have m: "min D (sum_list dts) = D" using assms(3) by simp
  have "ticks applyAnimation dts ?s obj =
          (?s\<lparr>elapsed := D, running := False\<rparr>, move obj (vec_times (vec_divide T D) D))"
    using ticks_translation[OF s(1) lt assms(2), of obj] s m by simp
  moreover have "vec_times (vec_divide T D) D = T" using D by (simp add: vec_divide_times)
  ultimately show ?thesis by (simp add: move_def)
qed

lemma exact_arithmetic_equal_subticks:
  assumes "TranslationAnimation_ctor ref D T = Some a"
    and "N \<in> {1, 2, 100}" and "M \<in> {1, 2, 100}"
  shows "ticks applyAnimation (replicate N (D / real N)) (Animation_start a) obj =
         ticks applyAnimation (replicate M (D / real M)) (Animation_start a) obj
       \<and> snd (ticks applyAnimation (replicate N (D / real N)) (Animation_start a) obj) = move obj T"
proof -
  have "0 < N" "0 < M" using assms(2,3) by auto
  then show ?thesis
    using ticks_equal_subticks[OF assms(1), of N obj] ticks_equal_subticks[OF assms(1), of M obj]
    by simp
qed

section \<open>Properties of animators\<close>

lemma nth_opt_Some: "nth_opt xs i = Some x \<longleftrightarrow> i < length xs \<and> x = xs ! i"
  by (auto simp add: nth_opt_def)

lemma nth_opt_None: "nth_opt xs i = None \<longleftrightarrow> length xs \<le> i"
  by (auto simp add: nth_opt_def)

lemma Animator_tick_idle:
  "\<not> Animator_isRunning am \<Longrightarrow> Animator_tick applyFn dt am objs = Some (am, objs)"
  by (auto simp add: Animator_tick_def Animator_isRunning_def Let_def)

lemma Animator_ticks_idle:
  "\<not> Animator_isRunning am \<Longrightarrow> Animator_ticks applyFn dts am objs = Some (am, objs)"
  by (induction dts) (simp_all add: Animator_tick_idle)

lemma Animator_tick_running:
  assumes "m_currentIndex am < length (m_animations am)"
    and "running (m_animations am ! m_currentIndex am)"
    and "nth_opt objs (m_object (m_animations am ! m_currentIndex am)) = Some obj"
    and "Animation_tick applyFn dt (m_animations am ! m_currentIndex am) obj = (a', obj')"
  shows "Animator_tick applyFn dt am objs =
     Some (if running a' then am\<lparr>m_animations := (m_animations am)[m_currentIndex am := a']\<rparr>
           else if Suc (m_currentIndex am) < length (m_animations am)
           then am\<lparr>m_animations := (m_animations am)
                     [m_currentIndex am := a',
                      Suc (m_currentIndex am) := Animation_start (m_animations am ! Suc (m_currentIndex am))],
                   m_currentIndex := Suc (m_currentIndex am)\<rparr>
           else am\<lparr>m_animations := (m_animations am)[m_currentIndex am := a'],
                   m_currentIndex := Suc (m_currentIndex am)\<rparr>,
           objs[m_object (m_animations am ! m_currentIndex am) := obj'])"
  using assms by (simp add: Animator_tick_def Let_def)

lemma Animation_tick_object: "m_object (fst (Animation_tick applyFn dt a obj)) = m_object a"
  by (simp add: Animation_tick_def Let_def)

lemma targetsExist_update:
  "targetsExist n am \<Longrightarrow> m_object a < n \<Longrightarrow>
   targetsExist n (am\<lparr>m_animations := (m_animations am)[i := a]\<rparr>)"
  unfolding targetsExist_def by (auto dest!: set_update_subset_insert[THEN subsetD])

lemma targetsExist_nth:
  "targetsExist n am \<Longrightarrow> i < length (m_animations am) \<Longrightarrow> m_object (m_animations am ! i) < n"
  by (simp add: targetsExist_def)

lemma Animator_start_targets: "targetsExist n am \<Longrightarrow> targetsExist n (Animator_start am)"
  by (auto simp add: Animator_start_def Let_def Animation_start_def targetsExist_nth
      intro!: targetsExist_update)

lemma Animator_tick_total:
  assumes "targetsExist (length objs) am"
  shows "\<exists>am' objs'. Animator_tick applyFn dt am objs = Some (am', objs')
           \<and> length objs' = length objs \<and> targetsExist (length objs) am'"
proof (cases "Animator_isRunning am")
  case False
  then show ?thesis using assms by (simp add: Animator_tick_idle)
next
  case True
  let ?i = "m_currentIndex am"
  let ?a = "m_animations am ! ?i"
  from True have i: "?i < length (m_animations am)" and r: "running ?a"
    by (simp_all add: Animator_isRunning_def)
  have tg: "m_object ?a < length objs" using assms i by (rule targetsExist_nth)
  then have o: "nth_opt objs (m_object ?a) = Some (objs ! m_object ?a)" by (simp add: nth_opt_def)
  obtain a' obj' where t: "Animation_tick applyFn dt ?a (objs ! m_object ?a) = (a', obj')" by force
  have ma: "m_object a' < length objs"
    using Animation_tick_object[of applyFn dt ?a "objs ! m_object ?a"] t tg by simp
  have 1: "targetsExist (length objs) (am\<lparr>m_animations := (m_animations am)[?i := a']\<rparr>)"
    using assms ma by (rule targetsExist_update)
  have 2: "Suc ?i < length (m_animations am) \<Longrightarrow>
      targetsExist (length objs) (am\<lparr>m_animations := (m_animations am)[?i := a',
          Suc ?i := Animation_start (m_animations am ! Suc ?i)]\<rparr>)"
    using targetsExist_update[OF 1, of "Animation_start (m_animations am ! Suc ?i)" "Suc ?i"]
      targetsExist_nth[OF assms, of "Suc ?i"]
    by (simp add: Animation_start_def)
  show ?thesis
    unfolding Animator_tick_running[OF i r o t]
    using 1 2 by (auto simp add: targetsExist_def)
qed

text \<open>
  C2. When the current animation \<open>k\<close> of an animator is stopped by a \<^verbatim>\<open>tick(dt)\<close>, that call
  increments the index and leaves in the objects only what animation \<open>k\<close> did with its
  own (clamped) delta. If animation \<open>k + 1\<close> exists it is started in the same call, with
  elapsed time 0: it has received no part of \<open>dt\<close>, and the next \<^verbatim>\<open>tick\<close> is the first to
  forward a delta to it. If it does not exist the animator is finished, and every
  further sequence of ticks leaves the animator and the objects as they are.
\<close>

theorem animator_completion_starts_next_without_delta:
  assumes cur: "m_currentIndex am = k" "k < length (m_animations am)"
    and run: "running (m_animations am ! k)"
    and tgt: "nth_opt objs (m_object (m_animations am ! k)) = Some obj"
    and fin: "\<not> running (fst (Animation_tick applyFn dt (m_animations am ! k) obj))"
  shows "\<exists>am' objs'.
           Animator_tick applyFn dt am objs = Some (am', objs')
         \<and> m_currentIndex am' = Suc k
         \<and> objs' = objs[m_object (m_animations am ! k) := snd (Animation_tick applyFn dt (m_animations am ! k) obj)]
         \<and> (Suc k < length (m_animations am) \<longrightarrow>
               m_animations am' ! Suc k = Animation_start (m_animations am ! Suc k)
             \<and> running (m_animations am' ! Suc k)
             \<and> elapsed (m_animations am' ! Suc k) = 0
             \<and> Animator_isRunning am'
             \<and> (\<forall>dt2 obj2. nth_opt objs' (m_object (m_animations am ! Suc k)) = Some obj2 \<longrightarrow>
                   (\<exists>am2 objs2.
                      Animator_tick applyFn dt2 am' objs' = Some (am2, objs2)
                    \<and> m_animations am2 ! Suc k =
                        fst (Animation_tick applyFn dt2 (Animation_start (m_animations am ! Suc k)) obj2)
                    \<and> objs2 = objs'[m_object (m_animations am ! Suc k) :=
                        snd (Animation_tick applyFn dt2 (Animation_start (m_animations am ! Suc k)) obj2)])))
         \<and> (length (m_animations am) \<le> Suc k \<longrightarrow>
               \<not> Animator_isRunning am'
             \<and> (\<forall>dts. Animator_ticks applyFn dts am' objs' = Some (am', objs')))"
proof -
  let ?anims = "m_animations am"
  obtain a' obj' where t: "Animation_tick applyFn dt (?anims ! k) obj = (a', obj')" by force
  with fin have nr: "\<not> running a'" by simp
  let ?objs' = "objs[m_object (?anims ! k) := obj']"
  show ?thesis
  proof (cases "Suc k < length ?anims")
    case True
    let ?am' = "am\<lparr>m_animations := ?anims[k := a', Suc k := Animation_start (?anims ! Suc k)],
                   m_currentIndex := Suc k\<rparr>"
    have step: "Animator_tick applyFn dt am objs = Some (?am', ?objs')"
      using Animator_tick_running[of am objs obj applyFn dt a' obj'] cur run tgt t nr True by simp
    have nxt: "m_animations ?am' ! Suc k = Animation_start (?anims ! Suc k)"
      using True by simp
    have mo: "m_object (Animation_start (?anims ! Suc k)) = m_object (?anims ! Suc k)"
      by (simp add: Animation_start_def)
    have r: "running (Animation_start (?anims ! Suc k))" "elapsed (Animation_start (?anims ! Suc k)) = 0"
      by (simp_all add: Animation_start_def)
    have follow: "\<exists>am2 objs2.
          Animator_tick applyFn dt2 ?am' ?objs' = Some (am2, objs2)
        \<and> m_animations am2 ! Suc k = fst (Animation_tick applyFn dt2 (Animation_start (?anims ! Suc k)) obj2)
        \<and> objs2 = ?objs'[m_object (?anims ! Suc k) :=
              snd (Animation_tick applyFn dt2 (Animation_start (?anims ! Suc k)) obj2)]"
      if o2: "nth_opt ?objs' (m_object (?anims ! Suc k)) = Some obj2" for dt2 obj2
    proof -
      obtain a2 ob2 where t2: "Animation_tick applyFn dt2 (Animation_start (?anims ! Suc k)) obj2 = (a2, ob2)"
        by force
      have "Animator_tick applyFn dt2 ?am' ?objs' =
         Some (if running a2 then ?am'\<lparr>m_animations := (m_animations ?am')[m_currentIndex ?am' := a2]\<rparr>
           else if Suc (m_currentIndex ?am') < length (m_animations ?am')
           then ?am'\<lparr>m_animations := (m_animations ?am')
                     [m_currentIndex ?am' := a2,
                      Suc (m_currentIndex ?am') := Animation_start (m_animations ?am' ! Suc (m_currentIndex ?am'))],
                   m_currentIndex := Suc (m_currentIndex ?am')\<rparr>
           else ?am'\<lparr>m_animations := (m_animations ?am')[m_currentIndex ?am' := a2],
                   m_currentIndex := Suc (m_currentIndex ?am')\<rparr>,
           ?objs'[m_object (m_animations ?am' ! m_currentIndex ?am') := ob2])"
        apply (rule Animator_tick_running)
        using True r o2 t2 mo by simp_all
      then show ?thesis using True t2 mo by (auto simp add: nth_list_update)
    qed
    have "Animator_isRunning ?am'" using True r by (simp add: Animator_isRunning_def)
    then show ?thesis using step nxt r t True follow by auto
  next
    case False
    let ?am' = "am\<lparr>m_animations := ?anims[k := a'], m_currentIndex := Suc k\<rparr>"
    have step: "Animator_tick applyFn dt am objs = Some (?am', ?objs')"
      using Animator_tick_running[of am objs obj applyFn dt a' obj'] cur run tgt t nr False by simp
    have idle: "\<not> Animator_isRunning ?am'" using False by (simp add: Animator_isRunning_def)
    then have "\<forall>dts. Animator_ticks applyFn dts ?am' ?objs' = Some (?am', ?objs')"
      by (simp add: Animator_ticks_idle)
    then show ?thesis using step idle t False by auto
  qed
qed

theorem animator_completion_starts_next_without_delta_witness:
  "\<exists>am' objs'.
     Animator_tick applyAnimation (3/2)
       \<lparr>m_animations = [\<lparr>m_object = 0, duration = 1, elapsed = 0, running = True, m_perSecond = Vec3 1 0 0\<rparr>,
                        \<lparr>m_object = 0, duration = 2, elapsed = 0, running = False, m_perSecond = Vec3 0 1 0\<rparr>],
         m_currentIndex = 0\<rparr>
       [Object3D 0 0 (Vec3 1 1 1) []] = Some (am', objs')
     \<and> m_currentIndex am' = 1
     \<and> objs' = [Object3D (Vec3 1 0 0) 0 (Vec3 1 1 1) []]
     \<and> running (m_animations am' ! 1)
     \<and> elapsed (m_animations am' ! 1) = 0"
proof -
  let ?a0 = "\<lparr>m_object = 0, duration = 1, elapsed = 0, running = True, m_perSecond = Vec3 1 0 0\<rparr>"
  let ?a1 = "\<lparr>m_object = 0, duration = 2, elapsed = 0, running = False, m_perSecond = Vec3 0 1 0\<rparr>"
  let ?am = "\<lparr>m_animations = [?a0, ?a1], m_currentIndex = 0\<rparr>"
  let ?objs = "[Object3D 0 0 (Vec3 1 1 1) []]"
  have t: "Animation_tick applyAnimation (3/2) ?a0 (Object3D 0 0 (Vec3 1 1 1) []) =
      (?a0\<lparr>elapsed := 1, running := False\<rparr>, Object3D (Vec3 1 0 0) 0 (Vec3 1 1 1) [])"
    by (simp add: Animation_tick_def Let_def applyAnimation_def move_def vec_times_def plus_vec3_def zero_vec3_def)
  have 1: "m_currentIndex ?am = 0" "0 < length (m_animations ?am)" by simp_all
  have 2: "running (m_animations ?am ! 0)" by simp
  have 3: "nth_opt ?objs (m_object (m_animations ?am ! 0)) = Some (Object3D 0 0 (Vec3 1 1 1) [])"
    by (simp add: nth_opt_def)
  have 4: "\<not> running (fst (Animation_tick applyAnimation (3/2) (m_animations ?am ! 0) (Object3D 0 0 (Vec3 1 1 1) [])))"
    using t by simp
  from animator_completion_starts_next_without_delta[OF 1 2 3 4]
  obtain am' objs' where
    r: "Animator_tick applyAnimation (3/2) ?am ?objs = Some (am', objs')"
       "m_currentIndex am' = Suc 0"
       "objs' = ?objs[m_object (m_animations ?am ! 0) := snd (Animation_tick applyAnimation (3/2) (m_animations ?am ! 0) (Object3D 0 0 (Vec3 1 1 1) []))]"
       "Suc 0 < length (m_animations ?am) \<longrightarrow> running (m_animations am' ! Suc 0) \<and> elapsed (m_animations am' ! Suc 0) = 0"
    by blast
  show ?thesis
    using r t by simp
qed

section \<open>Properties of rendering\<close>

lemma mat4_mult_shift: "mat4_mult (shift v a) b = shift v (mat4_mult a b)"
  by (simp add: mat4_mult_def shift_def add.assoc)

lemma mat3_vec_identity: "mat3_vec mat3_identity v = v"
  by (cases v) (simp add: mat3_vec_def mat3_identity_def dot_def)

lemma mat4_identity_shift: "mat4_mult mat4_identity (shift v m) = shift v (mat4_mult mat4_identity m)"
  by (simp add: mat4_mult_def mat4_identity_def shift_def mat3_vec_identity)

lemma getTransform_move: "getTransform (move obj v) = shift v (getTransform obj)"
proof -
  have "translate_mat (m_position obj + v) = shift v (translate_mat (m_position obj))"
    by (simp add: translate_mat_def shift_def)
  then show ?thesis
    by (simp add: getTransform_def move_def mat4_mult_shift)
qed

lemma renderWith_shift: "renderWith (shift v parent) obj = map (shift v) (renderWith parent obj)"
proof (induction obj arbitrary: parent)
  case (Object3D p r s cs)
  let ?w = "mat4_mult parent (getTransform (Object3D p r s cs))"
  have children: "map (renderWith (shift v ?w)) cs = map (\<lambda>c. map (shift v) (renderWith ?w c)) cs"
    by (rule map_cong[OF refl]) (rule Object3D.IH)
  have "renderWith (shift v parent) (Object3D p r s cs) =
          shift v ?w # concat (map (renderWith (shift v ?w)) cs)"
    by (simp add: Let_def mat4_mult_shift)
  also have "\<dots> = shift v ?w # concat (map (\<lambda>c. map (shift v) (renderWith ?w c)) cs)"
    by (simp only: children)
  also have "\<dots> = map (shift v) (?w # concat (map (renderWith ?w) cs))"
    by (simp add: map_concat comp_def)
  also have "\<dots> = map (shift v) (renderWith parent (Object3D p r s cs))"
    by (simp add: Let_def)
  finally show ?case .
qed

lemma render_move: "render (move obj v) = map (shift v) (render obj)"
proof -
  have "render (move obj v) = renderWith mat4_identity (move obj v)"
    by (simp add: render_def)
  also have "\<dots> = renderWith (shift v mat4_identity) obj"
  proof (cases obj)
    case (Object3D p r s cs)
    have g: "getTransform (Object3D (p + v) r s cs) = shift v (getTransform (Object3D p r s cs))"
      using getTransform_move[of "Object3D p r s cs" v] by (simp add: move_def)
    show ?thesis
      unfolding Object3D move_def
      by (simp add: Let_def g mat4_identity_shift mat4_mult_shift)
  qed
  also have "\<dots> = map (shift v) (render obj)"
    by (simp add: renderWith_shift render_def)
  finally show ?thesis .
qed

lemma descendants_move: "tl (descendants (move obj v)) = tl (descendants obj)"
  by (cases obj) (simp add: move_def)

lemma length_renderWith: "length (renderWith parent obj) = length (descendants obj)"
proof (induction obj arbitrary: parent)
  case (Object3D p r s cs)
  let ?w = "mat4_mult parent (getTransform (Object3D p r s cs))"
  have "map (\<lambda>c. length (renderWith ?w c)) cs = map (\<lambda>c. length (descendants c)) cs"
    by (rule map_cong[OF refl]) (rule Object3D.IH)
  then have "sum_list (map (\<lambda>c. length (renderWith ?w c)) cs) = sum_list (map (\<lambda>c. length (descendants c)) cs)"
    by (simp only:)
  then show ?case by (simp add: Let_def length_concat comp_def)
qed

lemma mat3_vec_zero: "mat3_vec m 0 = 0"
  by (simp add: mat3_vec_def dot_def zero_vec3_def)

lemma translation_getTransform: "translation (mat4_mult mat4_identity (getTransform obj)) = m_position obj"
  by (simp add: getTransform_def mat4_mult_def translate_mat_def rotate_mat_def scale_mat_def
      mat4_identity_def mat3_vec_zero mat3_vec_identity)

lemma render_childless:
  "m_children obj = [] \<Longrightarrow> render obj = [mat4_mult mat4_identity (getTransform obj)]"
  by (cases obj) (simp add: render_def Let_def)

lemma renderObjects_childless:
  "\<forall>obj\<in>set objs. m_children obj = [] \<Longrightarrow>
   renderObjects objs = map (\<lambda>obj. mat4_mult mat4_identity (getTransform obj)) objs"
  by (induction objs) (simp_all add: renderObjects_def render_childless)

lemma worldPosition_renderObjects_childless:
  "\<forall>obj\<in>set objs. m_children obj = [] \<Longrightarrow> map worldPosition (renderObjects objs) = map m_position objs"
  by (simp add: renderObjects_childless worldPosition_def translation_getTransform)

lemma row_mat3_identity_left: "row_mat3 (Vec3 1 0 0) m = row1 m"
  "row_mat3 (Vec3 0 1 0) m = row2 m" "row_mat3 (Vec3 0 0 1) m = row3 m"
  by (cases m; cases "row1 m"; cases "row2 m"; cases "row3 m";
      simp add: row_mat3_def vec_times_def plus_vec3_def)+

lemma mat3_mult_identity_left: "mat3_mult mat3_identity m = m"
  by (cases m) (simp add: mat3_mult_def mat3_identity_def row_mat3_identity_left)

lemma rotate_mat_zero: "rotate_mat 0 = mat4_identity"
  by (simp add: rotate_mat_def rotate_x_def rotate_y_def rotate_z_def zero_vec3_def
      mat4_identity_def mat3_mult_def mat3_identity_def row_mat3_def vec_times_def plus_vec3_def)

lemma scale_mat_one: "scale_mat (Vec3 1 1 1) = mat4_identity"
  by (simp add: scale_mat_def mat4_identity_def mat3_identity_def zero_vec3_def)

lemma mat4_mult_identity_left: "mat4_mult mat4_identity m = m"
  by (cases m) (simp add: mat4_mult_def mat4_identity_def mat3_mult_identity_left mat3_vec_identity)

lemma translation_local: "translation (getTransform obj) = m_position obj"
  using translation_getTransform[of obj] by (simp add: mat4_mult_identity_left)

lemma hd_renderWith: "hd (renderWith parent obj) = mat4_mult parent (getTransform obj)"
  by (cases obj) (simp add: Let_def)

lemma row_mat3_identity_right: "row_mat3 r mat3_identity = r"
  by (cases r) (simp add: row_mat3_def mat3_identity_def vec_times_def plus_vec3_def)

lemma mat4_mult_identity_right: "mat4_mult m mat4_identity = m"
  by (cases m; cases "linear m")
     (simp add: mat4_mult_def mat4_identity_def mat3_mult_def row_mat3_identity_right mat3_vec_zero)

lemma getTransform_plain:
  assumes "m_orientation obj = 0" and "m_scale obj = Vec3 1 1 1"
  shows "getTransform obj = translate_mat (m_position obj)"
  unfolding getTransform_def assms rotate_mat_zero scale_mat_one mat4_mult_identity_right ..

text \<open>
  C3 (as amended). Moving a parent by \<open>V\<close> and rendering draws the parent and every
  descendant with the world transform it had before, translated by \<open>V\<close>: each world
  position is the former world position plus \<open>V\<close>, and the parent itself is at its new
  position. The stored children, and so the local position, orientation and scale of
  every descendant, are unchanged by the move. When the parent was at the origin with
  zero orientation and unit scale, each of its children is drawn at its own local
  position plus \<open>V\<close>.
\<close>

theorem parent_move_shifts_descendants:
  "render (move P V) = map (\<lambda>m. Mat4 (linear m) (translation m + V)) (render P)
   \<and> map worldPosition (render (move P V)) = map (\<lambda>m. worldPosition m + V) (render P)
   \<and> m_children (move P V) = m_children P
   \<and> tl (descendants (move P V)) = tl (descendants P)
   \<and> length (render P) = length (descendants P)
   \<and> worldPosition (hd (render (move P V))) = m_position P + V
   \<and> (m_position P = 0 \<and> m_orientation P = 0 \<and> m_scale P = Vec3 1 1 1 \<longrightarrow>
        (\<forall>c\<in>set (m_children P).
           worldPosition (hd (renderWith (hd (render (move P V))) c)) = m_position c + V))"
proof -
  have 1: "render (move P V) = map (\<lambda>m. Mat4 (linear m) (translation m + V)) (render P)"
    using render_move[of P V] by (simp add: shift_def[abs_def])
  then have 2: "map worldPosition (render (move P V)) = map (\<lambda>m. worldPosition m + V) (render P)"
    by (simp add: worldPosition_def comp_def)
  have 3: "m_children (move P V) = m_children P" by (simp add: move_def)
  have 4: "length (render P) = length (descendants P)" by (simp add: render_def length_renderWith)
  have h: "hd (render (move P V)) = getTransform (move P V)"
    by (simp add: render_def hd_renderWith mat4_mult_identity_left)
  have 5: "worldPosition (hd (render (move P V))) = m_position P + V"
    unfolding h by (simp add: worldPosition_def translation_local move_def)
  have 6: "worldPosition (hd (renderWith (hd (render (move P V))) c)) = m_position c + V"
    if p: "m_position P = 0" "m_orientation P = 0" "m_scale P = Vec3 1 1 1" for c
  proof -
    have "getTransform (move P V) = translate_mat V"
      using p getTransform_plain[of "move P V"] by (simp add: move_def)
    then have "hd (renderWith (hd (render (move P V))) c) = mat4_mult (translate_mat V) (getTransform c)"
      by (simp add: h hd_renderWith)
    then show ?thesis
      by (simp add: worldPosition_def mat4_mult_def translate_mat_def mat3_vec_identity translation_local)
  qed
  show ?thesis
    using 1 2 3 4 5 6 descendants_move[of P V] by (simp only: simp_thms) blast
qed

theorem parent_move_shifts_descendants_witness:
  "map worldPosition (render (move (Object3D (Vec3 0 (- (7/10)) 0) 0 (Vec3 1 1 1)
        [Object3D (Vec3 0 (- 5) 10) 0 (Vec3 1 1 1) []]) (Vec3 1 0 0)))
   = [Vec3 1 (- (7/10)) 0, Vec3 1 (- (57/10)) 10]
   \<and> worldPosition (hd (renderWith (hd (render (move (Object3D 0 0 (Vec3 1 1 1)
        [Object3D (Vec3 0 (- 5) 10) 0 (Vec3 1 1 1) []]) (Vec3 1 0 0))))
        (Object3D (Vec3 0 (- 5) 10) 0 (Vec3 1 1 1) []))) = Vec3 1 (- 5) 10"
proof -
  have a: "map worldPosition (render (move (Object3D (Vec3 0 (- (7/10)) 0) 0 (Vec3 1 1 1)
        [Object3D (Vec3 0 (- 5) 10) 0 (Vec3 1 1 1) []]) (Vec3 1 0 0)))
     = [Vec3 1 (- (7/10)) 0, Vec3 1 (- (57/10)) 10]"
    using parent_move_shifts_descendants[of "Object3D (Vec3 0 (- (7/10)) 0) 0 (Vec3 1 1 1)
        [Object3D (Vec3 0 (- 5) 10) 0 (Vec3 1 1 1) []]" "Vec3 1 0 0"]
    by (simp add: render_def getTransform_def mat4_mult_def mat4_identity_def mat3_identity_def
      translate_mat_def rotate_mat_def scale_mat_def rotate_x_def rotate_y_def rotate_z_def
      mat3_mult_def mat3_vec_def row_mat3_def dot_def vec_times_def plus_vec3_def zero_vec3_def
      worldPosition_def Let_def)
  let ?c = "Object3D (Vec3 0 (- 5) 10) 0 (Vec3 1 1 1) []"
  let ?P = "Object3D 0 0 (Vec3 1 1 1) [?c]"
  have "m_position ?P = 0 \<and> m_orientation ?P = 0 \<and> m_scale ?P = Vec3 1 1 1 \<longrightarrow>
        (\<forall>c\<in>set (m_children ?P).
           worldPosition (hd (renderWith (hd (render (move ?P (Vec3 1 0 0)))) c)) = m_position c + Vec3 1 0 0)"
    using parent_move_shifts_descendants[of ?P "Vec3 1 0 0"] by blast
  then have b: "worldPosition (hd (renderWith (hd (render (move ?P (Vec3 1 0 0)))) ?c)) = Vec3 1 (- 5) 10"
    by (simp add: plus_vec3_def)
  show ?thesis using a b by simp
qed

text \<open>
  C3 as stated fails: a child at local position \<open>(0, -5, 10)\<close> of a parent at
  \<open>(0, -0.7, 0)\<close>, with no rotation and unit scale, is drawn after the parent has moved by
  \<open>V = (1, 0, 0)\<close> at \<open>(1, -5.7, 10)\<close>, which is not its local position plus \<open>V\<close>.
\<close>

theorem descendant_at_local_plus_offset_counterexample:
  "worldPosition (render (move (Object3D (Vec3 0 (- (7/10)) 0) 0 (Vec3 1 1 1)
        [Object3D (Vec3 0 (- 5) 10) 0 (Vec3 1 1 1) []]) (Vec3 1 0 0)) ! 1)
   \<noteq> m_position (descendants (move (Object3D (Vec3 0 (- (7/10)) 0) 0 (Vec3 1 1 1)
        [Object3D (Vec3 0 (- 5) 10) 0 (Vec3 1 1 1) []]) (Vec3 1 0 0)) ! 1) + Vec3 1 0 0"
  by (simp add: render_def move_def getTransform_def mat4_mult_def mat4_identity_def mat3_identity_def
      translate_mat_def rotate_mat_def scale_mat_def rotate_x_def rotate_y_def rotate_z_def
      mat3_mult_def mat3_vec_def row_mat3_def dot_def vec_times_def plus_vec3_def zero_vec3_def
      worldPosition_def Let_def)

section \<open>Properties of the doors\<close>

lemma startAnimator_Some:
  "startAnimator i scene = Some scene' \<longleftrightarrow>
   i < length (animators scene) \<and>
   scene' = scene\<lparr>animators := (animators scene)[i := Animator_start (animators scene ! i)]\<rparr>"
  by (auto simp add: startAnimator_def nth_opt_Some split: option.splits simp: nth_opt_None)

lemma clampPosition_Some:
  "clampPosition i lo hi scene = Some scene' \<longleftrightarrow>
   i < length (objects scene) \<and>
   scene' = scene\<lparr>objects := (objects scene)[i := setPosition (objects scene ! i)
      (glm_clamp (getPosition (objects scene ! i)) lo hi)]\<rparr>"
  by (auto simp add: clampPosition_def nth_opt_Some split: option.splits simp: nth_opt_None)

lemma doorAction_objects:
  assumes "doorAction scene l r event = Some (scene', l', r')"
  shows "8 \<le> length (objects scene)
       \<and> objects scene' = (objects scene)
           [6 := setPosition (objects scene ! 6) (glm_clamp (getPosition (objects scene ! 6))
                   (Vec3 (85/100) (- (5/10)) (425/100)) (Vec3 (85/100) (65/100) (425/100))),
            7 := setPosition (objects scene ! 7) (glm_clamp (getPosition (objects scene ! 7))
                   (Vec3 (- (525/1000)) (- (5/10)) (425/100)) (Vec3 (- (525/1000)) (65/100) (425/100)))]"
  using assms
  by (auto simp add: doorAction_def startAnimator_Some clampPosition_Some
      split: Option.bind_splits if_splits)

lemma doorAction_total:
  assumes "8 \<le> length (objects scene)" and "4 \<le> length (animators scene)"
  shows "\<exists>scene' l' r'. doorAction scene l r event = Some (scene', l', r')"
proof -
  have sa: "\<And>i s. i < 4 \<Longrightarrow> length (animators s) = length (animators scene) \<Longrightarrow>
      startAnimator i s = Some (s\<lparr>animators := (animators s)[i := Animator_start (animators s ! i)]\<rparr>)"
    using assms(2) by (simp add: startAnimator_Some)
  obtain s1 l1 where 1:
    "(if event = KeyPressed Key_Q then
            (if \<not> l then do { s \<leftarrow> startAnimator 1 scene; Some (s, True) }
             else if l then do { s \<leftarrow> startAnimator 3 scene; Some (s, False) }
             else Some (scene, l))
          else Some (scene, l)) = Some (s1, l1)" and o1: "objects s1 = objects scene"
      and a1: "length (animators s1) = length (animators scene)"
    by (cases "event = KeyPressed Key_Q"; cases l) (force simp add: sa)+
  obtain s2 r2 where 2:
    "(if event = KeyPressed Key_E then
            (if \<not> r then do { s \<leftarrow> startAnimator 0 s1; Some (s, True) }
             else if r then do { s \<leftarrow> startAnimator 2 s1; Some (s, False) }
             else Some (s1, r))
          else Some (s1, r)) = Some (s2, r2)" and o2: "objects s2 = objects scene"
    using a1 o1 by (cases "event = KeyPressed Key_E"; cases r) (force simp add: sa)+
  show ?thesis
    using 1 2 o2 assms(1) by (simp add: doorAction_def clampPosition_def nth_opt_def)
qed

lemma fnaf_plain:
  "fnaf plainModel [] = Some \<lparr>objects = fnaf_objects plainModel [],
     animators = [
       \<lparr>m_animations = [\<lparr>m_object = 6, duration = 1, elapsed = 0, running = False, m_perSecond = Vec3 0 (- (23/20)) 0\<rparr>], m_currentIndex = 0\<rparr>,
       \<lparr>m_animations = [\<lparr>m_object = 7, duration = 1, elapsed = 0, running = False, m_perSecond = Vec3 0 (- (23/20)) 0\<rparr>], m_currentIndex = 0\<rparr>,
       \<lparr>m_animations = [\<lparr>m_object = 6, duration = 2, elapsed = 0, running = False, m_perSecond = Vec3 0 (23/40) 0\<rparr>], m_currentIndex = 0\<rparr>,
       \<lparr>m_animations = [\<lparr>m_object = 7, duration = 2, elapsed = 0, running = False, m_perSecond = Vec3 0 (23/40) 0\<rparr>], m_currentIndex = 0\<rparr>]\<rparr>"
  by (simp add: fnaf_def doorAnimator_def TranslationAnimation_ctor_def Animation_ctor_def
      addAnimation_def Animator_ctor_def vec_divide_def)

lemma len: "length (fnaf_objects plainModel []) = 9"
  by (simp add: fnaf_objects_def)

lemma door6: "fnaf_objects plainModel [] ! 6 = Object3D (Vec3 (17/20) (13/20) (17/4)) 0 (Vec3 (1/5) (1/5) (1/5)) []"
  by (simp add: fnaf_objects_def plainModel_def move_def grow_def vec_mult_def plus_vec3_def zero_vec3_def)

lemma door7: "fnaf_objects plainModel [] ! 7 = Object3D (Vec3 (- (21/40)) (13/20) (17/4)) 0 (Vec3 (1/5) (1/5) (1/5)) []"
  by (simp add: fnaf_objects_def plainModel_def move_def grow_def vec_mult_def plus_vec3_def zero_vec3_def)

lemma clamp_scalar_bounds: "lo \<le> hi \<Longrightarrow> lo \<le> clamp_scalar x lo hi \<and> clamp_scalar x lo hi \<le> hi"
  by (simp add: clamp_scalar_def)

lemma clamp_scalar_point: "clamp_scalar x c c = c"
  by (simp add: clamp_scalar_def)

lemma startAnimator_ready:
  assumes "sceneReady scene" and "i < 4"
  shows "\<exists>s. startAnimator i scene = Some s \<and> sceneReady s"
proof -
  let ?s = "scene\<lparr>animators := (animators scene)[i := Animator_start (animators scene ! i)]\<rparr>"
  have i: "i < length (animators scene)" using assms by (simp add: sceneReady_def)
  then have "targetsExist (length (objects scene)) (Animator_start (animators scene ! i))"
    using assms(1) by (simp add: sceneReady_def Animator_start_targets)
  then have "sceneReady ?s"
    using assms(1) by (auto simp add: sceneReady_def dest!: set_update_subset_insert[THEN subsetD])
  then show ?thesis using i by (simp add: startAnimator_Some)
qed

lemma clampPosition_ready:
  assumes "sceneReady scene" and "i < 8"
  shows "\<exists>s. clampPosition i lo hi scene = Some s \<and> sceneReady s"
  using assms by (simp add: clampPosition_Some sceneReady_def)

lemma bind_ready:
  assumes "\<exists>y. m = Some y \<and> P y" and "\<And>y. P y \<Longrightarrow> \<exists>z. f y = Some z \<and> Q z"
  shows "\<exists>z. Option.bind m f = Some z \<and> Q z"
  using assms by auto

lemma doorAction_ready:
  assumes "sceneReady scene"
  shows "\<exists>scene' l' r'. doorAction scene l r event = Some (scene', l', r') \<and> sceneReady scene'"
proof -
  have a: "\<exists>y. (if event = KeyPressed Key_Q then
            (if \<not> l then do { s \<leftarrow> startAnimator 1 scene; Some (s, True) }
             else if l then do { s \<leftarrow> startAnimator 3 scene; Some (s, False) }
             else Some (scene, l))
          else Some (scene, l)) = Some y \<and> sceneReady (fst y)"
    using startAnimator_ready[OF assms, of 1] startAnimator_ready[OF assms, of 3] assms by auto
  have b: "\<exists>y. (if event = KeyPressed Key_E then
            (if \<not> r then do { s \<leftarrow> startAnimator 0 s1; Some (s, True) }
             else if r then do { s \<leftarrow> startAnimator 2 s1; Some (s, False) }
             else Some (s1, r))
          else Some (s1, r)) = Some y \<and> sceneReady (fst y)" if "sceneReady s1" for s1
    using startAnimator_ready[OF that, of 0] startAnimator_ready[OF that, of 2] that by auto
  have c: "\<exists>z. do {
       scene \<leftarrow> clampPosition 6 lo6 hi6 s2;
       scene \<leftarrow> clampPosition 7 lo7 hi7 scene;
       Some (scene, l2, r2) } = Some z \<and> sceneReady (fst z)" if "sceneReady s2" for s2 l2 r2 lo6 hi6 lo7 hi7
  proof -
    from clampPosition_ready[OF that, of 6 lo6 hi6] obtain s3 where
      3: "clampPosition 6 lo6 hi6 s2 = Some s3" "sceneReady s3" by auto
    from clampPosition_ready[OF 3(2), of 7 lo7 hi7] obtain s4 where
      4: "clampPosition 7 lo7 hi7 s3 = Some s4" "sceneReady s4" by auto
    show ?thesis using 3 4 by simp
  qed
  from a obtain s1 l1 where 1: "(if event = KeyPressed Key_Q then
            (if \<not> l then do { s \<leftarrow> startAnimator 1 scene; Some (s, True) }
             else if l then do { s \<leftarrow> startAnimator 3 scene; Some (s, False) }
             else Some (scene, l))
          else Some (scene, l)) = Some (s1, l1)" and r1: "sceneReady s1" by force
  from b[OF r1] obtain s2 r2 where 2: "(if event = KeyPressed Key_E then
            (if \<not> r then do { s \<leftarrow> startAnimator 0 s1; Some (s, True) }
             else if r then do { s \<leftarrow> startAnimator 2 s1; Some (s, False) }
             else Some (s1, r))
          else Some (s1, r)) = Some (s2, r2)" and r2: "sceneReady s2" by force
  from c[OF r2] show ?thesis
    unfolding doorAction_def by (simp add: 1 2) force
qed

lemma clamp_scalar_cases:
  "lo \<le> hi \<Longrightarrow> clamp_scalar x lo hi = (if x < lo then lo else if hi < x then hi else x)"
  by (simp add: clamp_scalar_def min_def max_def)

text \<open>
  C9. On a scene with the eight objects and four animators that \<^verbatim>\<open>doorAction\<close> indexes,
  every call returns, whatever the event and the state of the animations, and leaves
  the right door (object 6) and the left door (object 7) at the componentwise clamp
  of their former positions into their boxes: \<open>x\<close> and \<open>z\<close> become the constants of the
  box, and \<open>y\<close> is kept when it lies between \<open>-0.5\<close> and \<open>0.65\<close>, raised to \<open>-0.5\<close> from
  below and lowered to \<open>0.65\<close> from above. Nothing else of the two doors and no other
  object changes.
\<close>

theorem doorAction_clamps_doors:
  assumes "8 \<le> length (objects scene)" and "4 \<le> length (animators scene)"
  shows "\<exists>scene' l' r'.
           doorAction scene l r event = Some (scene', l', r')
         \<and> m_position (objects scene' ! 6) =
             glm_clamp (m_position (objects scene ! 6))
               (Vec3 (85/100) (- (5/10)) (425/100)) (Vec3 (85/100) (65/100) (425/100))
         \<and> m_position (objects scene' ! 7) =
             glm_clamp (m_position (objects scene ! 7))
               (Vec3 (- (525/1000)) (- (5/10)) (425/100)) (Vec3 (- (525/1000)) (65/100) (425/100))
         \<and> m_position (objects scene' ! 6) =
             Vec3 (85/100)
               (if vy (m_position (objects scene ! 6)) < - (5/10) then - (5/10)
                else if 65/100 < vy (m_position (objects scene ! 6)) then 65/100
                else vy (m_position (objects scene ! 6)))
               (425/100)
         \<and> m_position (objects scene' ! 7) =
             Vec3 (- (525/1000))
               (if vy (m_position (objects scene ! 7)) < - (5/10) then - (5/10)
                else if 65/100 < vy (m_position (objects scene ! 7)) then 65/100
                else vy (m_position (objects scene ! 7)))
               (425/100)
         \<and> vx (m_position (objects scene' ! 6)) = 85/100
         \<and> vz (m_position (objects scene' ! 6)) = 425/100
         \<and> - (5/10) \<le> vy (m_position (objects scene' ! 6))
         \<and> vy (m_position (objects scene' ! 6)) \<le> 65/100
         \<and> vx (m_position (objects scene' ! 7)) = - (525/1000)
         \<and> vz (m_position (objects scene' ! 7)) = 425/100
         \<and> - (5/10) \<le> vy (m_position (objects scene' ! 7))
         \<and> vy (m_position (objects scene' ! 7)) \<le> 65/100
         \<and> m_orientation (objects scene' ! 6) = m_orientation (objects scene ! 6)
         \<and> m_scale (objects scene' ! 6) = m_scale (objects scene ! 6)
         \<and> m_children (objects scene' ! 6) = m_children (objects scene ! 6)
         \<and> m_orientation (objects scene' ! 7) = m_orientation (objects scene ! 7)
         \<and> m_scale (objects scene' ! 7) = m_scale (objects scene ! 7)
         \<and> m_children (objects scene' ! 7) = m_children (objects scene ! 7)
         \<and> length (objects scene') = length (objects scene)
         \<and> (\<forall>i. i \<noteq> 6 \<and> i \<noteq> 7 \<longrightarrow> objects scene' ! i = objects scene ! i)"
proof -
  obtain scene' l' r' where d: "doorAction scene l r event = Some (scene', l', r')"
    using doorAction_total[OF assms] by blast
  note o = doorAction_objects[OF d]
  have p6: "m_position (objects scene' ! 6) =
             glm_clamp (m_position (objects scene ! 6))
               (Vec3 (85/100) (- (5/10)) (425/100)) (Vec3 (85/100) (65/100) (425/100))"
    using o assms(1) by (simp add: setPosition_def getPosition_def)
  have p7: "m_position (objects scene' ! 7) =
             glm_clamp (m_position (objects scene ! 7))
               (Vec3 (- (525/1000)) (- (5/10)) (425/100)) (Vec3 (- (525/1000)) (65/100) (425/100))"
    using o assms(1) by (simp add: setPosition_def getPosition_def)
  have y: "\<And>x::real. clamp_scalar x (- (5/10)) (65/100) =
      (if x < - (5/10) then - (5/10) else if 65/100 < x then 65/100 else x)"
    by (rule clamp_scalar_cases) simp
  have e6: "m_position (objects scene' ! 6) =
             Vec3 (85/100)
               (if vy (m_position (objects scene ! 6)) < - (5/10) then - (5/10)
                else if 65/100 < vy (m_position (objects scene ! 6)) then 65/100
                else vy (m_position (objects scene ! 6)))
               (425/100)"
    unfolding p6 glm_clamp_def by (simp only: vec3.sel clamp_scalar_point y)
  have e7: "m_position (objects scene' ! 7) =
             Vec3 (- (525/1000))
               (if vy (m_position (objects scene ! 7)) < - (5/10) then - (5/10)
                else if 65/100 < vy (m_position (objects scene ! 7)) then 65/100
                else vy (m_position (objects scene ! 7)))
               (425/100)"
    unfolding p7 glm_clamp_def by (simp only: vec3.sel clamp_scalar_point y)
  have b6: "vx (m_position (objects scene' ! 6)) = 85/100" "vz (m_position (objects scene' ! 6)) = 425/100"
    "- (5/10) \<le> vy (m_position (objects scene' ! 6))" "vy (m_position (objects scene' ! 6)) \<le> 65/100"
    unfolding e6 by simp_all
  have b7: "vx (m_position (objects scene' ! 7)) = - (525/1000)" "vz (m_position (objects scene' ! 7)) = 425/100"
    "- (5/10) \<le> vy (m_position (objects scene' ! 7))" "vy (m_position (objects scene' ! 7)) \<le> 65/100"
    unfolding e7 by simp_all
  have k6: "m_orientation (objects scene' ! 6) = m_orientation (objects scene ! 6)"
    "m_scale (objects scene' ! 6) = m_scale (objects scene ! 6)"
    "m_children (objects scene' ! 6) = m_children (objects scene ! 6)"
    using o assms(1) by (simp_all add: setPosition_def)
  have k7: "m_orientation (objects scene' ! 7) = m_orientation (objects scene ! 7)"
    "m_scale (objects scene' ! 7) = m_scale (objects scene ! 7)"
    "m_children (objects scene' ! 7) = m_children (objects scene ! 7)"
    using o assms(1) by (simp_all add: setPosition_def)
  have len': "length (objects scene') = length (objects scene)" using o by simp
  have others: "\<forall>i. i \<noteq> 6 \<and> i \<noteq> 7 \<longrightarrow> objects scene' ! i = objects scene ! i"
    using o by simp
  show ?thesis
    using d p6 p7 e6 e7 b6 b7 k6 k7 len' others by blast
qed

theorem doorAction_clamps_doors_witness:
  "(\<exists>scene' l' r'.
     doorAction \<lparr>objects = (fnaf_objects plainModel [])
                    [6 := Object3D (Vec3 1 (- (9/10)) 4) 0 (Vec3 (1/5) (1/5) (1/5)) [],
                     7 := Object3D (Vec3 (- (21/40)) (1/10) (17/4)) 0 (Vec3 (1/5) (1/5) (1/5)) []],
                 animators = animators (the (fnaf plainModel []))\<rparr> False False (KeyPressed Key_Q)
       = Some (scene', l', r')
     \<and> m_position (objects scene' ! 6) = Vec3 (17/20) (- (1/2)) (17/4)
     \<and> m_position (objects scene' ! 7) = Vec3 (- (21/40)) (1/10) (17/4))
   \<and> (\<exists>scene' l' r'.
     doorAction \<lparr>objects = (fnaf_objects plainModel [])[6 := Object3D (Vec3 1 (9/10) 4) 0 (Vec3 (1/5) (1/5) (1/5)) []],
                 animators = animators (the (fnaf plainModel []))\<rparr> False False OtherEvent
       = Some (scene', l', r')
     \<and> m_position (objects scene' ! 6) = Vec3 (17/20) (13/20) (17/4)
     \<and> m_position (objects scene' ! 7) = Vec3 (- (21/40)) (13/20) (17/4))"
proof -
  let ?a = "\<lparr>objects = (fnaf_objects plainModel [])
                    [6 := Object3D (Vec3 1 (- (9/10)) 4) 0 (Vec3 (1/5) (1/5) (1/5)) [],
                     7 := Object3D (Vec3 (- (21/40)) (1/10) (17/4)) 0 (Vec3 (1/5) (1/5) (1/5)) []],
                 animators = animators (the (fnaf plainModel []))\<rparr>"
  let ?b = "\<lparr>objects = (fnaf_objects plainModel [])[6 := Object3D (Vec3 1 (9/10) 4) 0 (Vec3 (1/5) (1/5) (1/5)) []],
                 animators = animators (the (fnaf plainModel []))\<rparr>"
  have oa: "8 \<le> length (objects ?a)" and ob: "8 \<le> length (objects ?b)" by (simp_all add: len)
  have aa: "4 \<le> length (animators ?a)" and ab: "4 \<le> length (animators ?b)" by (simp_all add: fnaf_plain)
  have a6: "m_position (objects ?a ! 6) = Vec3 1 (- (9/10)) 4" by (simp add: len)
  have a7: "m_position (objects ?a ! 7) = Vec3 (- (21/40)) (1/10) (17/4)" by (simp add: len)
  have b6: "m_position (objects ?b ! 6) = Vec3 1 (9/10) 4" by (simp add: len)
  have b7: "m_position (objects ?b ! 7) = Vec3 (- (21/40)) (13/20) (17/4)" by (simp add: len door7)
  from doorAction_clamps_doors[OF oa aa, of False False "KeyPressed Key_Q"]
  obtain sa la ra where
    1: "doorAction ?a False False (KeyPressed Key_Q) = Some (sa, la, ra)"
    and 2: "m_position (objects sa ! 6) =
             Vec3 (85/100)
               (if vy (m_position (objects ?a ! 6)) < - (5/10) then - (5/10)
                else if 65/100 < vy (m_position (objects ?a ! 6)) then 65/100
                else vy (m_position (objects ?a ! 6)))
               (425/100)"
    and 3: "m_position (objects sa ! 7) =
             Vec3 (- (525/1000))
               (if vy (m_position (objects ?a ! 7)) < - (5/10) then - (5/10)
                else if 65/100 < vy (m_position (objects ?a ! 7)) then 65/100
                else vy (m_position (objects ?a ! 7)))
               (425/100)"
    by blast
  from doorAction_clamps_doors[OF ob ab, of False False OtherEvent]
  obtain sb lb rb where
    4: "doorAction ?b False False OtherEvent = Some (sb, lb, rb)"
    and 5: "m_position (objects sb ! 6) =
             Vec3 (85/100)
               (if vy (m_position (objects ?b ! 6)) < - (5/10) then - (5/10)
                else if 65/100 < vy (m_position (objects ?b ! 6)) then 65/100
                else vy (m_position (objects ?b ! 6)))
               (425/100)"
    and 6: "m_position (objects sb ! 7) =
             Vec3 (- (525/1000))
               (if vy (m_position (objects ?b ! 7)) < - (5/10) then - (5/10)
                else if 65/100 < vy (m_position (objects ?b ! 7)) then 65/100
                else vy (m_position (objects ?b ! 7)))
               (425/100)"
    by blast
  have "m_position (objects sa ! 6) = Vec3 (17/20) (- (1/2)) (17/4)" unfolding 2 a6 by simp
  moreover have "m_position (objects sa ! 7) = Vec3 (- (21/40)) (1/10) (17/4)" unfolding 3 a7 by simp
  moreover have "m_position (objects sb ! 6) = Vec3 (17/20) (13/20) (17/4)" unfolding 5 b6 by simp
  moreover have "m_position (objects sb ! 7) = Vec3 (- (21/40)) (13/20) (17/4)" unfolding 6 b7 by simp
  ultimately show ?thesis using 1 4 by blast
qed

section \<open>Properties of the frame loop\<close>

lemma doorAction_E:
  "doorAction (the (fnaf plainModel [])) False False (KeyPressed Key_E) =
   Some (the (fnaf plainModel [])\<lparr>animators := (animators (the (fnaf plainModel [])))[0 := Animator_start (animators (the (fnaf plainModel [])) ! 0)]\<rparr>, False, True)"
  apply (simp add: fnaf_plain doorAction_def startAnimator_def clampPosition_def nth_opt_def len door6 door7
     setPosition_def getPosition_def glm_clamp_def clamp_scalar_def Animator_start_def Animation_start_def Let_def)
  apply (simp add: list_eq_iff_nth_eq len nth_list_update door6 door7)
  done

lemma frame_Some:
  "frame inp st = Some (st', steps) \<longleftrightarrow>
   (\<exists>st1 anims objs.
      update inp st = Some st1
    \<and> tickAnimators (now inp - last_time st) (animators (myScene st1)) (objects (myScene st1)) = Some (anims, objs)
    \<and> st' = st1\<lparr>myScene := \<lparr>objects = objs, animators = anims\<rparr>\<rparr>
    \<and> steps = [PollEvents (events inp), MovePlayer, MoveFoxy, PanSecurityCamera,
          BindFramebuffer SecurityTexture, SetView (securityCamera st1),
          RenderPass (renderObjects (objects (myScene st1))),
          BindFramebuffer Window, SetView (playerCamera st1),
          TickAnimators (now inp - last_time st),
          RenderPass (renderObjects objs), Display])"
  by (auto simp add: frame_def Let_def split: Option.bind_splits prod.splits)

lemma tickAnimators_total:
  assumes "\<forall>am\<in>set ams. targetsExist (length objs) am"
  shows "\<exists>ams' objs'. tickAnimators dt ams objs = Some (ams', objs')
           \<and> length objs' = length objs \<and> length ams' = length ams
           \<and> (\<forall>am\<in>set ams'. targetsExist (length objs) am)"
  using assms
proof (induction ams arbitrary: objs)
  case Nil
  show ?case by simp
next
  case (Cons am ams)
  from Cons.prems have "targetsExist (length objs) am" by simp
  from Animator_tick_total[OF this, of applyAnimation dt]
  obtain am' objs1 where 1: "Animator_tick applyAnimation dt am objs = Some (am', objs1)"
    and l1: "length objs1 = length objs" and t1: "targetsExist (length objs) am'" by blast
  have "\<forall>am\<in>set ams. targetsExist (length objs1) am" using Cons.prems l1 by simp
  from Cons.IH[OF this]
  obtain ams' objs2 where 2: "tickAnimators dt ams objs1 = Some (ams', objs2)"
    and l2: "length objs2 = length objs1" "length ams' = length ams"
    and t2: "\<forall>am\<in>set ams'. targetsExist (length objs1) am" by blast
  show ?case using 1 2 l1 l2 t1 t2 by simp
qed

lemma pollEvents_ready:
  assumes "sceneReady (myScene st)"
  shows "\<exists>st'. pollEvents evs st = Some st' \<and> sceneReady (myScene st') \<and> last_time st' = last_time st"
  using assms
proof (induction evs arbitrary: st)
  case Nil
  then show ?case by simp
next
  case (Cons ev evs)
  let ?st = "if ev = Closed then st\<lparr>windowOpen := False\<rparr> else st"
  have "sceneReady (myScene ?st)" using Cons.prems by simp
  from doorAction_ready[OF this, of "leftDoorClosed ?st" "rightDoorClosed ?st" ev]
  obtain scene' l' r' where d: "doorAction (myScene ?st) (leftDoorClosed ?st) (rightDoorClosed ?st) ev = Some (scene', l', r')"
    and rd: "sceneReady scene'" by blast
  obtain cam act where c: "cameraAction (securityCamera ?st) (activeCam ?st) ev = (cam, act)" by force
  let ?st2 = "?st\<lparr>myScene := scene', leftDoorClosed := l', rightDoorClosed := r', securityCamera := cam, activeCam := act\<rparr>"
  have "sceneReady (myScene ?st2)" using rd by simp
  from Cons.IH[OF this] obtain st' where
    p: "pollEvents evs ?st2 = Some st'" "sceneReady (myScene st')" "last_time st' = last_time ?st2" by blast
  have "pollEvents (ev # evs) st = pollEvents evs ?st2"
    using d c by (simp add: Let_def)
  then show ?case using p by (simp split: if_splits)
qed

lemma updateFoxy_ready:
  "sceneReady (myScene st) \<Longrightarrow>
   updateFoxy f st = Some (st\<lparr>myScene := (myScene st)\<lparr>objects := (objects (myScene st))[3 := f (objects (myScene st) ! 3)]\<rparr>\<rparr>)"
  by (simp add: updateFoxy_def nth_opt_def sceneReady_def)

lemma sceneReady_objects_update:
  "sceneReady scene \<Longrightarrow> sceneReady (scene\<lparr>objects := (objects scene)[i := obj]\<rparr>)"
  by (simp add: sceneReady_def)

lemma foxyStep_ready:
  assumes "sceneReady (myScene st)"
  shows "\<exists>st'. foxyStep c1 c2 dt st = Some st' \<and> sceneReady (myScene st')"
  using assms
  by (simp add: foxyStep_def Let_def updateFoxy_ready sceneReady_objects_update)

lemma update_ready:
  assumes "sceneReady (myScene st)"
  shows "\<exists>st1. update inp st = Some st1 \<and> sceneReady (myScene st1)"
proof -
  from pollEvents_ready[OF assms, of "events inp"] obtain sta where
    p: "pollEvents (events inp) st = Some sta" and ra: "sceneReady (myScene sta)" by blast
  obtain pos forwards y where m: "movement (isKeyPressed inp) (cameraPos (playerCamera sta))
      (cameraForwards (playerCamera sta)) (yaw sta) (now inp - last_time sta) moveSpeed rotationSpeed
      = (pos, forwards, y)"
    by (metis prod_cases3)
  let ?stb = "sta\<lparr>last_time := now inp,
      playerCamera := (playerCamera (sta\<lparr>last_time := now inp\<rparr>))\<lparr>cameraPos := pos, cameraForwards := forwards\<rparr>,
      yaw := y\<rparr>"
  have "sceneReady (myScene ?stb)" using ra by simp
  from foxyStep_ready[OF this, of "foxyClock1 inp" "foxyClock2 inp" "now inp - last_time sta"]
  obtain stc where f: "foxyStep (foxyClock1 inp) (foxyClock2 inp) (now inp - last_time sta) ?stb = Some stc"
    and rc: "sceneReady (myScene stc)" by blast
  have "update inp st = Some (panSecurityCamera (now inp - last_time sta) (tiltSecurityCamera stc))"
    using p m f by (simp add: update_def Let_def)
  moreover have "myScene (panSecurityCamera (now inp - last_time sta) (tiltSecurityCamera stc)) = myScene stc"
    by (simp add: panSecurityCamera_def tiltSecurityCamera_def Let_def)
  ultimately show ?thesis using rc by simp
qed

lemma frame_total:
  assumes "sceneReady (myScene st)"
  shows "\<exists>st' steps. frame inp st = Some (st', steps) \<and> sceneReady (myScene st')"
proof -
  from update_ready[OF assms, of inp] obtain st1 where
    u: "update inp st = Some st1" and r1: "sceneReady (myScene st1)" by blast
  from r1 have "\<forall>am\<in>set (animators (myScene st1)). targetsExist (length (objects (myScene st1))) am"
    by (simp add: sceneReady_def)
  from tickAnimators_total[OF this, of "now inp - last_time st"] obtain anims objs where
    t: "tickAnimators (now inp - last_time st) (animators (myScene st1)) (objects (myScene st1)) = Some (anims, objs)"
    and l: "length objs = length (objects (myScene st1))" "length anims = length (animators (myScene st1))"
    and tg: "\<forall>am\<in>set anims. targetsExist (length (objects (myScene st1))) am" by blast
  have "sceneReady \<lparr>objects = objs, animators = anims\<rparr>"
    using r1 l tg by (simp add: sceneReady_def)
  then show ?thesis using u t by (simp add: frame_def Let_def)
qed

lemma mainLoop_total:
  assumes "sceneReady (myScene st)"
  shows "\<exists>st' steps. mainLoop inps st = Some (st', steps) \<and> sceneReady (myScene st')"
  using assms
proof (induction inps arbitrary: st)
  case Nil
  then show ?case by simp
next
  case (Cons inp inps)
  from frame_total[OF Cons.prems, of inp] obtain st1 steps where
    f: "frame inp st = Some (st1, steps)" and r: "sceneReady (myScene st1)" by blast
  from Cons.IH[OF r] obtain st2 more_steps where
    m: "mainLoop inps st1 = Some (st2, more_steps)" "sceneReady (myScene st2)" by blast
  show ?case using f m Cons.prems by simp
qed

lemma fnaf_ready: "\<exists>scene. fnaf assimpLoad extra = Some scene \<and> sceneReady scene"
  by (simp add: fnaf_def doorAnimator_def TranslationAnimation_ctor_def Animation_ctor_def
      addAnimation_def Animator_ctor_def sceneReady_def targetsExist_def fnaf_objects_def)

lemma main_runs:
  "\<exists>scene st' steps. fnaf assimpLoad extra = Some scene
     \<and> mainLoop inps (initialState scene t) = Some (st', steps)"
proof -
  obtain scene where s: "fnaf assimpLoad extra = Some scene" and r: "sceneReady scene"
    using fnaf_ready by blast
  have "sceneReady (myScene (initialState scene t))" using r by (simp add: initialState_def)
  from mainLoop_total[OF this] show ?thesis using s by blast
qed

lemma st0_ready: "sceneReady (myScene st0)"
proof -
  obtain scene where "fnaf plainModel [] = Some scene" and "sceneReady scene"
    using fnaf_ready by blast
  then show ?thesis by (simp add: st0_def initialState_def)
qed

lemma objs_plain: "objects (the (fnaf plainModel [])) = fnaf_objects plainModel []"
  by (simp add: fnaf_plain)

lemma update_pressE:
  "\<exists>st1. update pressE st0 = Some st1
     \<and> objects (myScene st1) = fnaf_objects plainModel []
     \<and> animators (myScene st1) = (animators (the (fnaf plainModel [])))[0 := Animator_start (animators (the (fnaf plainModel [])) ! 0)]"
  by (simp add: update_def pressE_def st0_def initialState_def doorAction_E cameraAction_def Let_def
      foxyStep_def foxyTrigger_def movement_def panSecurityCamera_def tiltSecurityCamera_def objs_plain)

lemma tick_pressE:
  "tickAnimators (1/2)
     ((animators (the (fnaf plainModel [])))[0 := Animator_start (animators (the (fnaf plainModel [])) ! 0)])
     (fnaf_objects plainModel []) =
   Some ([\<lparr>m_animations = [\<lparr>m_object = 6, duration = 1, elapsed = 1/2, running = True, m_perSecond = Vec3 0 (- (23/20)) 0\<rparr>], m_currentIndex = 0\<rparr>,
       \<lparr>m_animations = [\<lparr>m_object = 7, duration = 1, elapsed = 0, running = False, m_perSecond = Vec3 0 (- (23/20)) 0\<rparr>], m_currentIndex = 0\<rparr>,
       \<lparr>m_animations = [\<lparr>m_object = 6, duration = 2, elapsed = 0, running = False, m_perSecond = Vec3 0 (23/40) 0\<rparr>], m_currentIndex = 0\<rparr>,
       \<lparr>m_animations = [\<lparr>m_object = 7, duration = 2, elapsed = 0, running = False, m_perSecond = Vec3 0 (23/40) 0\<rparr>], m_currentIndex = 0\<rparr>],
      (fnaf_objects plainModel [])[6 := Object3D (Vec3 (17/20) (3/40) (17/4)) 0 (Vec3 (1/5) (1/5) (1/5)) []])"
  by (simp add: fnaf_plain Animator_start_def Animation_start_def Animator_tick_def Animation_tick_def
      nth_opt_def len door6 applyAnimation_def move_def vec_times_def plus_vec3_def Let_def)

lemma frame_pressE:
  "\<exists>st1 steps. frame pressE st0 = Some (st1, steps) \<and> update pressE st0 \<noteq> None
     \<and> objects (myScene (the (update pressE st0))) = fnaf_objects plainModel []
     \<and> objects (myScene st1) = (fnaf_objects plainModel [])[6 := Object3D (Vec3 (17/20) (3/40) (17/4)) 0 (Vec3 (1/5) (1/5) (1/5)) []]"
proof -
  obtain st1 where u: "update pressE st0 = Some st1"
     and o: "objects (myScene st1) = fnaf_objects plainModel []"
     and a: "animators (myScene st1) = (animators (the (fnaf plainModel [])))[0 := Animator_start (animators (the (fnaf plainModel [])) ! 0)]"
    using update_pressE by blast
  have dt: "now pressE - last_time st0 = 1/2"
    by (simp add: pressE_def st0_def initialState_def)
  show ?thesis
    using u o a by (simp add: frame_def Let_def dt tick_pressE)
qed

lemma plain_childless: "\<forall>obj\<in>set (fnaf_objects plainModel []). m_children obj = []"
  by (simp add: fnaf_objects_def plainModel_def move_def grow_def rotate_obj_def)

lemma plain_childless_moved:
  "\<forall>obj\<in>set ((fnaf_objects plainModel [])[6 := Object3D p r s []]). m_children obj = []"
  using plain_childless by (auto dest!: set_update_subset_insert[THEN subsetD])

text \<open>
  C6 (as amended). On a scene with the objects and animators that the loop indexes,
  an iteration of the frame loop returns and does, in this order: poll the events, move the player and Foxy, pan the security camera, bind the off-screen
  target, set the security view and draw the objects as the update left them, bind the
  window, set the player view, tick all animators, draw the objects as the ticks left
  them, and display. Only the player camera pass draws the transforms that the
  animators of this iteration produced.
\<close>

theorem frame_order_of_tick_and_passes:
  assumes "sceneReady (myScene st)"
  shows "\<exists>st' steps.
           frame inp st = Some (st', steps)
         \<and> steps = [PollEvents (events inp), MovePlayer, MoveFoxy, PanSecurityCamera,
              BindFramebuffer SecurityTexture, SetView (securityCamera st'),
              RenderPass (renderObjects (objects (myScene (the (update inp st))))),
              BindFramebuffer Window, SetView (playerCamera st'),
              TickAnimators (now inp - last_time st),
              RenderPass (renderObjects (objects (myScene st'))), Display]
         \<and> tickAnimators (now inp - last_time st)
              (animators (myScene (the (update inp st)))) (objects (myScene (the (update inp st))))
            = Some (animators (myScene st'), objects (myScene st'))"
proof -
  from frame_total[OF assms, of inp] obtain st' steps where f: "frame inp st = Some (st', steps)"
    by blast
  then obtain st1 anims objs where
    u: "update inp st = Some st1"
    and t: "tickAnimators (now inp - last_time st) (animators (myScene st1)) (objects (myScene st1)) = Some (anims, objs)"
    and s: "st' = st1\<lparr>myScene := \<lparr>objects = objs, animators = anims\<rparr>\<rparr>"
    and l: "steps = [PollEvents (events inp), MovePlayer, MoveFoxy, PanSecurityCamera,
          BindFramebuffer SecurityTexture, SetView (securityCamera st1),
          RenderPass (renderObjects (objects (myScene st1))),
          BindFramebuffer Window, SetView (playerCamera st1),
          TickAnimators (now inp - last_time st),
          RenderPass (renderObjects objs), Display]"
    unfolding frame_Some by blast
  show ?thesis using f u t s l by simp
qed

theorem frame_order_of_tick_and_passes_witness:
  "snd (the (frame pressE st0)) ! 6 = RenderPass (renderObjects (objects (myScene (the (update pressE st0)))))
   \<and> snd (the (frame pressE st0)) ! 9 = TickAnimators (1/2)
   \<and> snd (the (frame pressE st0)) ! 10 =
       RenderPass (renderObjects (objects (myScene (fst (the (frame pressE st0))))))
   \<and> m_position (objects (myScene (fst (the (frame pressE st0)))) ! 6) = Vec3 (17/20) (3/40) (17/4)"
proof -
  obtain st1 steps where f: "frame pressE st0 = Some (st1, steps)"
     and o1: "objects (myScene st1) = (fnaf_objects plainModel [])[6 := Object3D (Vec3 (17/20) (3/40) (17/4)) 0 (Vec3 (1/5) (1/5) (1/5)) []]"
    using frame_pressE by blast
  have dt: "now pressE - last_time st0 = 1/2"
    by (simp add: pressE_def st0_def initialState_def)
  show ?thesis
    using frame_order_of_tick_and_passes[OF st0_ready, of pressE] f o1 by (auto simp add: dt len)
qed

text \<open>
  C6 as stated fails: in the iteration in which the key E starts the closing of the
  right door, the security camera pass (step 6) is issued before the animators are
  ticked (step 9) and draws the door at height \<open>0.65\<close>, where it was before the tick; the
  tick moves it to \<open>0.075\<close>, where only the player camera pass (step 10) draws it.
\<close>

theorem ticked_before_both_passes_counterexample:
  "snd (the (frame pressE st0)) ! 6 = RenderPass (renderObjects (fnaf_objects plainModel []))
   \<and> snd (the (frame pressE st0)) ! 9 = TickAnimators (1/2)
   \<and> snd (the (frame pressE st0)) ! 10 = RenderPass (renderObjects (objects (myScene (fst (the (frame pressE st0))))))
   \<and> map worldPosition (renderObjects (fnaf_objects plainModel [])) ! 6 = Vec3 (17/20) (13/20) (17/4)
   \<and> map worldPosition (renderObjects (objects (myScene (fst (the (frame pressE st0)))))) ! 6 = Vec3 (17/20) (3/40) (17/4)
   \<and> snd (the (frame pressE st0)) ! 6 \<noteq> RenderPass (renderObjects (objects (myScene (fst (the (frame pressE st0))))))"
proof -
  obtain st1 steps where f: "frame pressE st0 = Some (st1, steps)"
     and u: "update pressE st0 \<noteq> None"
     and o: "objects (myScene (the (update pressE st0))) = fnaf_objects plainModel []"
     and o1: "objects (myScene st1) = (fnaf_objects plainModel [])[6 := Object3D (Vec3 (17/20) (3/40) (17/4)) 0 (Vec3 (1/5) (1/5) (1/5)) []]"
    using frame_pressE by blast
  have dt: "now pressE - last_time st0 = 1/2"
    by (simp add: pressE_def st0_def initialState_def)
  from f obtain st2 where s: "update pressE st0 = Some st2" and
    steps: "steps = [PollEvents (events pressE), MovePlayer, MoveFoxy, PanSecurityCamera,
          BindFramebuffer SecurityTexture, SetView (securityCamera st2),
          RenderPass (renderObjects (objects (myScene st2))),
          BindFramebuffer Window, SetView (playerCamera st2),
          TickAnimators (now pressE - last_time st0),
          RenderPass (renderObjects (objects (myScene st1))), Display]"
    unfolding frame_Some by auto
  have 6: "steps ! 6 = RenderPass (renderObjects (fnaf_objects plainModel []))"
    using o s by (simp add: steps)
  have 9: "steps ! 9 = TickAnimators (1/2)"
    by (simp add: steps dt)
  have 10: "steps ! 10 = RenderPass (renderObjects (objects (myScene st1)))"
    by (simp add: steps)
  have before: "map worldPosition (renderObjects (fnaf_objects plainModel [])) ! 6 = Vec3 (17/20) (13/20) (17/4)"
    by (simp add: worldPosition_renderObjects_childless[OF plain_childless] len door6)
  have after: "map worldPosition (renderObjects (objects (myScene st1))) ! 6 = Vec3 (17/20) (3/40) (17/4)"
    unfolding o1 by (simp add: worldPosition_renderObjects_childless[OF plain_childless_moved] len)
  have differ: "renderObjects (fnaf_objects plainModel []) \<noteq> renderObjects (objects (myScene st1))"
  proof
    assume "renderObjects (fnaf_objects plainModel []) = renderObjects (objects (myScene st1))"
    then have "map worldPosition (renderObjects (fnaf_objects plainModel [])) ! 6 =
               map worldPosition (renderObjects (objects (myScene st1))) ! 6"
      by simp
    then show False unfolding before after by simp
  qed
  show ?thesis using f 6 9 10 before after differ by simp
qed

lemma M_PI_pos: "0 < M_PI"
  by (simp add: M_PI_def)

lemma panSecurityCamera_cases:
  "panSecurityCamera dt st =
     (if cameraYaw st + deltaYaw st * dt > - M_PI / 4
      then st\<lparr>cameraYaw := - M_PI / 4, deltaYaw := - \<bar>deltaYaw st\<bar>\<rparr>
      else if cameraYaw st + deltaYaw st * dt < - 3 * M_PI / 4
      then st\<lparr>cameraYaw := - 3 * M_PI / 4, deltaYaw := \<bar>deltaYaw st\<bar>\<rparr>
      else st\<lparr>cameraYaw := cameraYaw st + deltaYaw st * dt\<rparr>)"
  using M_PI_pos by (simp add: panSecurityCamera_def Let_def)

lemma pollEvents_yaw:
  "pollEvents evs st = Some st' \<Longrightarrow>
   cameraYaw st' = cameraYaw st \<and> deltaYaw st' = deltaYaw st \<and> last_time st' = last_time st"
proof (induction evs arbitrary: st)
  case Nil
  then show ?case by simp
next
  case (Cons ev evs)
  let ?st = "if ev = Closed then st\<lparr>windowOpen := False\<rparr> else st"
  from Cons.prems obtain scene l r where
    d: "doorAction (myScene ?st) (leftDoorClosed ?st) (rightDoorClosed ?st) ev = Some (scene, l, r)"
    by (cases "doorAction (myScene ?st) (leftDoorClosed ?st) (rightDoorClosed ?st) ev") (auto simp add: Let_def)
  obtain cam act where c: "cameraAction (securityCamera ?st) (activeCam ?st) ev = (cam, act)" by force
  let ?st2 = "?st\<lparr>myScene := scene, leftDoorClosed := l, rightDoorClosed := r, securityCamera := cam, activeCam := act\<rparr>"
  have e: "pollEvents (ev # evs) st = pollEvents evs ?st2"
    using d c by (simp add: Let_def)
  with Cons.prems have "pollEvents evs ?st2 = Some st'" by simp
  from Cons.IH[OF this] show ?case by (simp split: if_splits)
qed

lemma updateFoxy_yaw:
  "updateFoxy f st = Some st' \<Longrightarrow>
   cameraYaw st' = cameraYaw st \<and> deltaYaw st' = deltaYaw st"
  by (auto simp add: updateFoxy_def split: option.splits)

lemma stage_kept:
  assumes "(if c then do { s \<leftarrow> updateFoxy f st; Some (g s) } else Some st) = Some s1"
    and "\<And>s. cameraYaw (g s) = cameraYaw s \<and> deltaYaw (g s) = deltaYaw s"
  shows "cameraYaw s1 = cameraYaw st \<and> deltaYaw s1 = deltaYaw st"
proof (cases c)
  case True
  with assms(1) obtain s where u: "updateFoxy f st = Some s" and e: "s1 = g s"
    by (auto simp add: bind_eq_Some_conv)
  from updateFoxy_yaw[OF u] assms(2)[of s] e show ?thesis by simp
next
  case False
  with assms(1) show ?thesis by simp
qed

lemma foxyStep_yaw:
  assumes "foxyStep c1 c2 dt st = Some st'"
  shows "cameraYaw st' = cameraYaw st \<and> deltaYaw st' = deltaYaw st"
proof -
  let ?st0 = "if c1 > foxyTrigger \<and> c2 < foxyTrigger + 1 then st\<lparr>foxyEvent := True\<rparr> else st"
  let ?dm = "(foxyAcceleration * foxyVelocity) * dt"
  from assms obtain s1 s2 s3 where
    1: "(if foxyEvent ?st0 \<and> distanceMoved ?st0 < 8 then
                do {
                  st \<leftarrow> updateFoxy (\<lambda>foxy. move foxy (Vec3 ?dm 0 ?dm)) ?st0;
                  Some (st\<lparr>distanceMoved := distanceMoved st + ?dm\<rparr>)
                }
              else Some ?st0) = Some s1"
    and 2: "(if foxyEvent s1 \<and> distanceMoved s1 > 8 \<and> distanceMoved s1 < 32 then
                do {
                  st \<leftarrow> updateFoxy (\<lambda>foxy. move foxy (Vec3 0 0 ?dm)) s1;
                  Some (st\<lparr>distanceMoved := distanceMoved st + ?dm\<rparr>)
                }
              else Some s1) = Some s2"
    and 3: "(if foxyEvent s2 \<and> distanceMoved s2 > 32 then
                do {
                  st \<leftarrow> (if \<not> leftDoorClosed s2 \<and> alive s2 then
                           do {
                             st \<leftarrow> updateFoxy (\<lambda>foxy. rotate_obj foxy (Vec3 0 0 (- M_PI / 8))) s2;
                             Some (st\<lparr>alive := False\<rparr>)
                           }
                         else Some s2);
                  Some (if leftDoorClosed st then st\<lparr>foxyEvent := False, foxyReset := True\<rparr> else st)
                }
              else Some s2) = Some s3"
    and 4: "(if foxyReset s3 then
          do {
            st \<leftarrow> updateFoxy (\<lambda>foxy. setPosition foxy (Vec3 (- 9) (- (55/100)) (- 28))) s3;
            st \<leftarrow> updateFoxy (\<lambda>foxy. setOrientation foxy (Vec3 0 (M_PI / 4) 0)) st;
            Some (st\<lparr>foxyReset := False\<rparr>)
          }
        else Some s3) = Some st'"
    unfolding foxyStep_def Let_def bind_eq_Some_conv by blast
  have k0: "cameraYaw ?st0 = cameraYaw st \<and> deltaYaw ?st0 = deltaYaw st" by simp
  have k1: "cameraYaw s1 = cameraYaw ?st0 \<and> deltaYaw s1 = deltaYaw ?st0"
    by (rule stage_kept[OF 1]) simp
  have k2: "cameraYaw s2 = cameraYaw s1 \<and> deltaYaw s2 = deltaYaw s1"
    by (rule stage_kept[OF 2]) simp
  have k3: "cameraYaw s3 = cameraYaw s2 \<and> deltaYaw s3 = deltaYaw s2"
  proof (cases "foxyEvent s2 \<and> distanceMoved s2 > 32")
    case True
    with 3 obtain si where
      i: "(if \<not> leftDoorClosed s2 \<and> alive s2 then
             do {
               st \<leftarrow> updateFoxy (\<lambda>foxy. rotate_obj foxy (Vec3 0 0 (- M_PI / 8))) s2;
               Some (st\<lparr>alive := False\<rparr>)
             }
           else Some s2) = Some si"
      and e: "s3 = (if leftDoorClosed si then si\<lparr>foxyEvent := False, foxyReset := True\<rparr> else si)"
      by (auto simp only: simp_thms if_True bind_eq_Some_conv option.inject)
    have "cameraYaw si = cameraYaw s2 \<and> deltaYaw si = deltaYaw s2"
      by (rule stage_kept[OF i]) simp
    with e show ?thesis by simp
  next
    case False
    with 3 show ?thesis by simp
  qed
  have k4: "cameraYaw st' = cameraYaw s3 \<and> deltaYaw st' = deltaYaw s3"
  proof (cases "foxyReset s3")
    case True
    with 4 obtain sa sb where
      a: "updateFoxy (\<lambda>foxy. setPosition foxy (Vec3 (- 9) (- (55/100)) (- 28))) s3 = Some sa"
      and b: "updateFoxy (\<lambda>foxy. setOrientation foxy (Vec3 0 (M_PI / 4) 0)) sa = Some sb"
      and e: "st' = sb\<lparr>foxyReset := False\<rparr>"
      by (auto simp only: simp_thms if_True bind_eq_Some_conv option.inject)
    from updateFoxy_yaw[OF a] updateFoxy_yaw[OF b] e show ?thesis by simp
  next
    case False
    with 4 show ?thesis by simp
  qed
  show ?thesis using k0 k1 k2 k3 k4 by simp
qed

lemma panSecurityCamera_cong:
  "cameraYaw a = cameraYaw b \<Longrightarrow> deltaYaw a = deltaYaw b \<Longrightarrow>
   cameraYaw (panSecurityCamera d a) = cameraYaw (panSecurityCamera d b)
   \<and> deltaYaw (panSecurityCamera d a) = deltaYaw (panSecurityCamera d b)"
  by (simp add: panSecurityCamera_cases)

lemma update_yaw:
  assumes "update inp st = Some st1"
  shows "cameraYaw st1 = cameraYaw (panSecurityCamera (now inp - last_time st) st)
       \<and> deltaYaw st1 = deltaYaw (panSecurityCamera (now inp - last_time st) st)"
proof -
  from assms obtain sta where p: "pollEvents (events inp) st = Some sta"
    by (cases "pollEvents (events inp) st") (auto simp add: update_def)
  obtain pos forwards y where m: "movement (isKeyPressed inp) (cameraPos (playerCamera sta))
      (cameraForwards (playerCamera sta)) (yaw sta) (now inp - last_time sta) moveSpeed rotationSpeed
      = (pos, forwards, y)"
    by (metis prod_cases3)
  let ?stb = "sta\<lparr>last_time := now inp,
      playerCamera := (playerCamera (sta\<lparr>last_time := now inp\<rparr>))\<lparr>cameraPos := pos, cameraForwards := forwards\<rparr>,
      yaw := y\<rparr>"
  from assms p m obtain stc where
    f: "foxyStep (foxyClock1 inp) (foxyClock2 inp) (now inp - last_time sta) ?stb = Some stc"
    and s: "st1 = panSecurityCamera (now inp - last_time sta) (tiltSecurityCamera stc)"
    by (cases "foxyStep (foxyClock1 inp) (foxyClock2 inp) (now inp - last_time sta) ?stb")
       (auto simp add: update_def Let_def)
  note py = pollEvents_yaw[OF p] and fy = foxyStep_yaw[OF f]
  have "cameraYaw (tiltSecurityCamera stc) = cameraYaw st" "deltaYaw (tiltSecurityCamera stc) = deltaYaw st"
    using py fy by (simp_all add: tiltSecurityCamera_def Let_def)
  from panSecurityCamera_cong[OF this, of "now inp - last_time sta"] s py show ?thesis by simp
qed

lemma frame_yaw:
  assumes "frame inp st = Some (st', steps)"
  shows "cameraYaw st' = cameraYaw (panSecurityCamera (now inp - last_time st) st)
       \<and> deltaYaw st' = deltaYaw (panSecurityCamera (now inp - last_time st) st)"
proof -
  from assms obtain st1 anims objs where u: "update inp st = Some st1"
    and s: "st' = st1\<lparr>myScene := \<lparr>objects = objs, animators = anims\<rparr>\<rparr>"
    unfolding frame_Some by blast
  from update_yaw[OF u] s show ?thesis by simp
qed

text \<open>
  C10. After the security camera update, \<^verbatim>\<open>cameraYaw\<close> lies between \<open>-3 pi / 4\<close> and
  \<open>-pi / 4\<close>. A step that stays in that interval advances the yaw by
  \<open>deltaYaw * deltaTime\<close> and keeps \<^verbatim>\<open>deltaYaw\<close>. A step that would pass the upper end
  leaves the yaw at \<open>-pi / 4\<close> and sets \<^verbatim>\<open>deltaYaw\<close> to \<open>- |deltaYaw|\<close>, so that the next
  step, with a time step \<open>dt' \<ge> 0\<close>, brings the yaw to \<open>-pi / 4 - |deltaYaw| * dt'\<close> (or to
  the lower end, if that is passed): strictly below \<open>-pi / 4\<close> when \<open>dt' > 0\<close> and
  \<^verbatim>\<open>deltaYaw\<close> is not 0. The lower end mirrors this. The magnitude of \<^verbatim>\<open>deltaYaw\<close> never
  changes. An iteration of the frame loop that returns has applied exactly this step,
  with the time since the last iteration, to the yaw and \<^verbatim>\<open>deltaYaw\<close> it started with;
  and it returns on every scene with the objects and animators it indexes.
\<close>

theorem security_camera_yaw_range:
  "- 3 * M_PI / 4 \<le> cameraYaw (panSecurityCamera dt st)
   \<and> cameraYaw (panSecurityCamera dt st) \<le> - M_PI / 4
   \<and> (- 3 * M_PI / 4 \<le> cameraYaw st + deltaYaw st * dt \<and> cameraYaw st + deltaYaw st * dt \<le> - M_PI / 4 \<longrightarrow>
        cameraYaw (panSecurityCamera dt st) = cameraYaw st + deltaYaw st * dt
        \<and> deltaYaw (panSecurityCamera dt st) = deltaYaw st)
   \<and> (cameraYaw st + deltaYaw st * dt > - M_PI / 4 \<longrightarrow>
        cameraYaw (panSecurityCamera dt st) = - M_PI / 4
        \<and> deltaYaw (panSecurityCamera dt st) = - \<bar>deltaYaw st\<bar>
        \<and> (0 \<le> dt' \<longrightarrow>
             cameraYaw (panSecurityCamera dt st) + deltaYaw (panSecurityCamera dt st) * dt' \<le> - M_PI / 4
           \<and> cameraYaw (panSecurityCamera dt' (panSecurityCamera dt st)) =
               max (- 3 * M_PI / 4) (- M_PI / 4 - \<bar>deltaYaw st\<bar> * dt'))
        \<and> (0 < dt' \<and> deltaYaw st \<noteq> 0 \<longrightarrow>
             cameraYaw (panSecurityCamera dt' (panSecurityCamera dt st)) < - M_PI / 4))
   \<and> (cameraYaw st + deltaYaw st * dt < - 3 * M_PI / 4 \<longrightarrow>
        cameraYaw (panSecurityCamera dt st) = - 3 * M_PI / 4
        \<and> deltaYaw (panSecurityCamera dt st) = \<bar>deltaYaw st\<bar>
        \<and> (0 \<le> dt' \<longrightarrow>
             - 3 * M_PI / 4 \<le> cameraYaw (panSecurityCamera dt st) + deltaYaw (panSecurityCamera dt st) * dt'
           \<and> cameraYaw (panSecurityCamera dt' (panSecurityCamera dt st)) =
               min (- M_PI / 4) (- 3 * M_PI / 4 + \<bar>deltaYaw st\<bar> * dt'))
        \<and> (0 < dt' \<and> deltaYaw st \<noteq> 0 \<longrightarrow>
             - 3 * M_PI / 4 < cameraYaw (panSecurityCamera dt' (panSecurityCamera dt st))))
   \<and> \<bar>deltaYaw (panSecurityCamera dt st)\<bar> = \<bar>deltaYaw st\<bar>
   \<and> (frame inp st = Some (st', steps) \<longrightarrow>
        cameraYaw st' = cameraYaw (panSecurityCamera (now inp - last_time st) st)
        \<and> deltaYaw st' = deltaYaw (panSecurityCamera (now inp - last_time st) st)
        \<and> - 3 * M_PI / 4 \<le> cameraYaw st' \<and> cameraYaw st' \<le> - M_PI / 4)
   \<and> (sceneReady (myScene st) \<longrightarrow> frame inp st \<noteq> None)"
proof -
  have range: "\<And>d s. - 3 * M_PI / 4 \<le> cameraYaw (panSecurityCamera d s) \<and> cameraYaw (panSecurityCamera d s) \<le> - M_PI / 4"
    unfolding panSecurityCamera_cases using M_PI_pos by auto
  have inside: "- 3 * M_PI / 4 \<le> cameraYaw st + deltaYaw st * dt \<and> cameraYaw st + deltaYaw st * dt \<le> - M_PI / 4 \<longrightarrow>
        cameraYaw (panSecurityCamera dt st) = cameraYaw st + deltaYaw st * dt
        \<and> deltaYaw (panSecurityCamera dt st) = deltaYaw st"
    unfolding panSecurityCamera_cases by auto
  have nn: "0 \<le> dt' \<Longrightarrow> 0 \<le> \<bar>deltaYaw st\<bar> * dt'"
    by (rule mult_nonneg_nonneg) simp_all
  have pos: "0 < dt' \<Longrightarrow> deltaYaw st \<noteq> 0 \<Longrightarrow> 0 < \<bar>deltaYaw st\<bar> * dt'"
    by (rule mult_pos_pos) simp_all
  have high: "cameraYaw (panSecurityCamera dt st) = - M_PI / 4
        \<and> deltaYaw (panSecurityCamera dt st) = - \<bar>deltaYaw st\<bar>
        \<and> (0 \<le> dt' \<longrightarrow>
             cameraYaw (panSecurityCamera dt st) + deltaYaw (panSecurityCamera dt st) * dt' \<le> - M_PI / 4
           \<and> cameraYaw (panSecurityCamera dt' (panSecurityCamera dt st)) =
               max (- 3 * M_PI / 4) (- M_PI / 4 - \<bar>deltaYaw st\<bar> * dt'))
        \<and> (0 < dt' \<and> deltaYaw st \<noteq> 0 \<longrightarrow>
             cameraYaw (panSecurityCamera dt' (panSecurityCamera dt st)) < - M_PI / 4)"
    if h: "cameraYaw st + deltaYaw st * dt > - M_PI / 4"
  proof -
    let ?s = "panSecurityCamera dt st"
    have c: "cameraYaw ?s = - M_PI / 4" and d: "deltaYaw ?s = - \<bar>deltaYaw st\<bar>"
      using h unfolding panSecurityCamera_cases by simp_all
    have raw: "cameraYaw ?s + deltaYaw ?s * dt' = - M_PI / 4 - \<bar>deltaYaw st\<bar> * dt'"
      by (simp add: c d)
    define k where "k = \<bar>deltaYaw st\<bar> * dt'"
    have raw': "cameraYaw ?s + deltaYaw ?s * dt' = - M_PI / 4 - k"
      using raw by (simp add: k_def)
    have nxt: "cameraYaw (panSecurityCamera dt' ?s) = max (- 3 * M_PI / 4) (- M_PI / 4 - k)" if "0 \<le> dt'"
    proof -
      have "0 \<le> k" unfolding k_def using that by (rule nn)
      then show ?thesis
        unfolding panSecurityCamera_cases[of dt' ?s] raw' using M_PI_pos by (auto simp add: max_def)
    qed
    have strict: "cameraYaw (panSecurityCamera dt' ?s) < - M_PI / 4" if "0 < dt'" "deltaYaw st \<noteq> 0"
    proof -
      have "0 < k" unfolding k_def using that by (rule pos)
      moreover have "0 \<le> dt'" using that by simp
      ultimately show ?thesis using nxt M_PI_pos by (auto simp add: max_def)
    qed
    have le: "cameraYaw ?s + deltaYaw ?s * dt' \<le> - M_PI / 4" if "0 \<le> dt'"
    proof -
      have "0 \<le> k" unfolding k_def using that by (rule nn)
      then show ?thesis unfolding raw' by simp
    qed
    show ?thesis using c d nxt strict le unfolding k_def by blast
  qed
  have low: "cameraYaw (panSecurityCamera dt st) = - 3 * M_PI / 4
        \<and> deltaYaw (panSecurityCamera dt st) = \<bar>deltaYaw st\<bar>
        \<and> (0 \<le> dt' \<longrightarrow>
             - 3 * M_PI / 4 \<le> cameraYaw (panSecurityCamera dt st) + deltaYaw (panSecurityCamera dt st) * dt'
           \<and> cameraYaw (panSecurityCamera dt' (panSecurityCamera dt st)) =
               min (- M_PI / 4) (- 3 * M_PI / 4 + \<bar>deltaYaw st\<bar> * dt'))
        \<and> (0 < dt' \<and> deltaYaw st \<noteq> 0 \<longrightarrow>
             - 3 * M_PI / 4 < cameraYaw (panSecurityCamera dt' (panSecurityCamera dt st)))"
    if h: "cameraYaw st + deltaYaw st * dt < - 3 * M_PI / 4"
  proof -
    let ?s = "panSecurityCamera dt st"
    have c: "cameraYaw ?s = - 3 * M_PI / 4" and d: "deltaYaw ?s = \<bar>deltaYaw st\<bar>"
      using h M_PI_pos unfolding panSecurityCamera_cases by simp_all
    have raw: "cameraYaw ?s + deltaYaw ?s * dt' = - 3 * M_PI / 4 + \<bar>deltaYaw st\<bar> * dt'"
      by (simp add: c d)
    define k where "k = \<bar>deltaYaw st\<bar> * dt'"
    have raw': "cameraYaw ?s + deltaYaw ?s * dt' = - 3 * M_PI / 4 + k"
      using raw by (simp add: k_def)
    have nxt: "cameraYaw (panSecurityCamera dt' ?s) = min (- M_PI / 4) (- 3 * M_PI / 4 + k)" if "0 \<le> dt'"
    proof -
      have "0 \<le> k" unfolding k_def using that by (rule nn)
      then show ?thesis
        unfolding panSecurityCamera_cases[of dt' ?s] raw' using M_PI_pos by (auto simp add: min_def)
    qed
    have strict: "- 3 * M_PI / 4 < cameraYaw (panSecurityCamera dt' ?s)" if "0 < dt'" "deltaYaw st \<noteq> 0"
    proof -
      have "0 < k" unfolding k_def using that by (rule pos)
      moreover have "0 \<le> dt'" using that by simp
      ultimately show ?thesis using nxt M_PI_pos by (auto simp add: min_def)
    qed
    have ge: "- 3 * M_PI / 4 \<le> cameraYaw ?s + deltaYaw ?s * dt'" if "0 \<le> dt'"
    proof -
      have "0 \<le> k" unfolding k_def using that by (rule nn)
      then show ?thesis unfolding raw' by simp
    qed
    show ?thesis using c d nxt strict ge unfolding k_def by blast
  qed
  have mag: "\<bar>deltaYaw (panSecurityCamera dt st)\<bar> = \<bar>deltaYaw st\<bar>"
    unfolding panSecurityCamera_cases by auto
  have fr: "frame inp st = Some (st', steps) \<longrightarrow>
        cameraYaw st' = cameraYaw (panSecurityCamera (now inp - last_time st) st)
        \<and> deltaYaw st' = deltaYaw (panSecurityCamera (now inp - last_time st) st)
        \<and> - 3 * M_PI / 4 \<le> cameraYaw st' \<and> cameraYaw st' \<le> - M_PI / 4"
    using frame_yaw[of inp st st' steps] range[of "now inp - last_time st" st] by auto
  have tot: "sceneReady (myScene st) \<longrightarrow> frame inp st \<noteq> None"
    using frame_total[of st inp] by auto
  show ?thesis using range[of dt st] inside high low mag fr tot by blast
qed

theorem security_camera_yaw_range_witness:
  "cameraYaw (panSecurityCamera (1/2) st0) = - (7 * M_PI / 16)
   \<and> deltaYaw (panSecurityCamera (1/2) st0) = M_PI / 8
   \<and> cameraYaw (panSecurityCamera 5 st0) = - M_PI / 4
   \<and> deltaYaw (panSecurityCamera 5 st0) = - (M_PI / 8)
   \<and> cameraYaw (panSecurityCamera 1 (panSecurityCamera 5 st0)) = - (3 * M_PI / 8)
   \<and> cameraYaw (panSecurityCamera 10 (panSecurityCamera 5 st0)) = - 3 * M_PI / 4
   \<and> cameraYaw (fst (the (frame pressE st0))) = - (7 * M_PI / 16)
   \<and> deltaYaw (fst (the (frame pressE st0))) = M_PI / 8"
proof -
  obtain st1 steps where f: "frame pressE st0 = Some (st1, steps)"
    using frame_pressE by blast
  have y: "cameraYaw st0 = - M_PI / 2" "deltaYaw st0 = M_PI / 8"
    by (simp_all add: st0_def initialState_def)
  have dt: "now pressE - last_time st0 = 1/2"
    by (simp add: pressE_def st0_def initialState_def)
  have in1: "- 3 * M_PI / 4 \<le> cameraYaw st0 + deltaYaw st0 * (1/2) \<and> cameraYaw st0 + deltaYaw st0 * (1/2) \<le> - M_PI / 4"
    using M_PI_pos by (simp add: y)
  have hi: "cameraYaw st0 + deltaYaw st0 * 5 > - M_PI / 4"
    using M_PI_pos by (simp add: y)
  have a: "\<bar>deltaYaw st0\<bar> = M_PI / 8" using M_PI_pos by (simp add: y)
  have m1: "max (- 3 * M_PI / 4) (- M_PI / 4 - M_PI / 8 * 1) = - (3 * M_PI / 8)"
    using M_PI_pos by (simp add: max_def)
  have m10: "max (- 3 * M_PI / 4) (- M_PI / 4 - M_PI / 8 * 10) = - 3 * M_PI / 4"
    using M_PI_pos by (simp add: max_def)
  note t1 = security_camera_yaw_range[of "1/2" st0 1 pressE st1 steps]
  note t2 = security_camera_yaw_range[of 5 st0 1 pressE st1 steps]
  note t3 = security_camera_yaw_range[of 5 st0 10 pressE st1 steps]
  have 1: "cameraYaw (panSecurityCamera (1/2) st0) = - (7 * M_PI / 16)" "deltaYaw (panSecurityCamera (1/2) st0) = M_PI / 8"
    using t1 in1 by (simp_all add: y)
  have 2: "cameraYaw (panSecurityCamera 5 st0) = - M_PI / 4" "deltaYaw (panSecurityCamera 5 st0) = - (M_PI / 8)"
    "cameraYaw (panSecurityCamera 1 (panSecurityCamera 5 st0)) = - (3 * M_PI / 8)"
    using t2 hi a m1 by simp_all
  have 3: "cameraYaw (panSecurityCamera 10 (panSecurityCamera 5 st0)) = - 3 * M_PI / 4"
    using t3 hi a m10 by simp
  have 4: "cameraYaw st1 = - (7 * M_PI / 16)" "deltaYaw st1 = M_PI / 8"
    using t1 f 1 by (simp_all add: dt)
  show ?thesis using 1 2 3 4 f by simp
qed

end
